theory Spec2Isabelle
  imports Complex_Main "HOL-Library.Word"
begin

section \<open>JavaScript values\<close>

text \<open>
  The worker (\<^verbatim>\<open>worker/index.js\<close>) is untyped JavaScript, so the model works on
  JavaScript values as the code meets them. A string is its sequence of 16-bit code units
  (\<^verbatim>\<open>atob\<close> yields units below 256, \<^verbatim>\<open>btoa\<close> refuses any other). A number is
  \<^verbatim>\<open>NaN\<close> or a finite value; finite values are kept as exact rationals, so the rounding
  of IEEE-754 doubles and the two infinities are outside the model. An object is the list
  of its own properties in insertion order, each key once.
\<close>

type_synonym jsstring = "16 word list"

definition js :: "string \<Rightarrow> jsstring" where
  "js s = map of_char s"

datatype jsnum = NaN | Fin rat

datatype jsval =
    JUndefined
  | JNull
  | JBool bool
  | JNum jsnum
  | JStr jsstring
  | JArr "jsval list"
  | JObj "(jsstring \<times> jsval) list"

datatype exn = TypeError | SyntaxError | InvalidCharacterError | NetworkError

text \<open>
  The built-in functions the worker calls and that are not spelled out here are parameters:
  \<^verbatim>\<open>JSON.parse\<close> (\<open>None\<close> when it throws a SyntaxError), \<^verbatim>\<open>JSON.stringify\<close>, and
  the conversions of a string, array or object to a number (in \<^verbatim>\<open>e.duration_secs - duration\<close>)
  and of a non-string to a string (in the commit message's template literal); either
  conversion can throw a TypeError on an object, which is \<open>None\<close>.
\<close>

record builtins =
  JSON_parse :: "jsstring \<Rightarrow> jsval option"
  JSON_stringify :: "jsval \<Rightarrow> jsstring"
  ToNumber_other :: "jsval \<Rightarrow> jsnum option"
  ToString_other :: "jsval \<Rightarrow> jsstring option"

text \<open>\<^verbatim>\<open>!x\<close>, \<^verbatim>\<open>x || y\<close> and \<^verbatim>\<open>filter(Boolean)\<close> test truthiness.\<close>

fun truthy :: "jsval \<Rightarrow> bool" where
  "truthy JUndefined = False"
| "truthy JNull = False"
| "truthy (JBool b) = b"
| "truthy (JNum NaN) = False"
| "truthy (JNum (Fin r)) = (r \<noteq> 0)"
| "truthy (JStr s) = (s \<noteq> [])"
| "truthy (JArr xs) = True"
| "truthy (JObj kvs) = True"

definition js_or :: "jsval \<Rightarrow> jsval \<Rightarrow> jsval" where
  "js_or a b = (if truthy a then a else b)"

text \<open>
  Reading a property \<^verbatim>\<open>v.k\<close> or \<^verbatim>\<open>v[k]\<close>, for the property names the worker reads
  (none is an index, \<^verbatim>\<open>length\<close> or a name of a prototype): an object gives its own
  property or \<^verbatim>\<open>undefined\<close>, any other value but \<^verbatim>\<open>null\<close> and \<^verbatim>\<open>undefined\<close> gives
  \<^verbatim>\<open>undefined\<close>, and those two throw a TypeError. \<open>get\<close> is the read where it cannot
  throw, \<open>property\<close> the read in general.
\<close>

fun get :: "jsval \<Rightarrow> jsstring \<Rightarrow> jsval" where
  "get (JObj kvs) k = (case map_of kvs k of Some v \<Rightarrow> v | None \<Rightarrow> JUndefined)"
| "get v k = JUndefined"

definition property :: "jsval \<Rightarrow> jsstring \<Rightarrow> exn + jsval" where
  "property v k = (if v = JNull \<or> v = JUndefined then Inl TypeError else Inr (get v k))"

text \<open>
  \<^verbatim>\<open>a === b\<close>. Two arrays or objects are equal only when they are the same object; the
  worker only ever compares a value parsed from a line of the blob with a value of the
  request, which are never the same object.
\<close>

fun strict_eq :: "jsval \<Rightarrow> jsval \<Rightarrow> bool" where
  "strict_eq JUndefined JUndefined = True"
| "strict_eq JNull JNull = True"
| "strict_eq (JBool a) (JBool b) = (a = b)"
| "strict_eq (JNum (Fin a)) (JNum (Fin b)) = (a = b)"
| "strict_eq (JStr a) (JStr b) = (a = b)"
| "strict_eq a b = False"

subsection \<open>Numbers\<close>

fun to_number :: "builtins \<Rightarrow> jsval \<Rightarrow> exn + jsnum" where
  "to_number b JUndefined = Inr NaN"
| "to_number b JNull = Inr (Fin 0)"
| "to_number b (JBool c) = Inr (Fin (if c then 1 else 0))"
| "to_number b (JNum n) = Inr n"
| "to_number b v = (case ToNumber_other b v of None \<Rightarrow> Inl TypeError | Some n \<Rightarrow> Inr n)"

fun num_sub :: "jsnum \<Rightarrow> jsnum \<Rightarrow> jsnum" where
  "num_sub (Fin x) (Fin y) = Fin (x - y)"
| "num_sub x y = NaN"

fun num_mul :: "jsnum \<Rightarrow> jsnum \<Rightarrow> jsnum" where
  "num_mul (Fin x) (Fin y) = Fin (x * y)"
| "num_mul x y = NaN"

fun num_abs :: "jsnum \<Rightarrow> jsnum" where
  "num_abs (Fin x) = Fin \<bar>x\<bar>"
| "num_abs NaN = NaN"

text \<open>Every comparison with \<^verbatim>\<open>NaN\<close> is false.\<close>

fun num_le :: "jsnum \<Rightarrow> jsnum \<Rightarrow> bool" where
  "num_le (Fin x) (Fin y) = (x \<le> y)"
| "num_le x y = False"

fun num_gt :: "jsnum \<Rightarrow> jsnum \<Rightarrow> bool" where
  "num_gt (Fin x) (Fin y) = (x > y)"
| "num_gt x y = False"

subsection \<open>Strings\<close>

text \<open>
  \<^verbatim>\<open>String.prototype.trim\<close> removes white space and line terminators from both ends.
\<close>

definition is_ws :: "16 word \<Rightarrow> bool" where
  "is_ws u = (u = 0x9 \<or> u = 0xA \<or> u = 0xB \<or> u = 0xC \<or> u = 0xD \<or> u = 0x20 \<or> u = 0xA0
     \<or> u = 0x1680 \<or> (0x2000 \<le> u \<and> u \<le> 0x200A) \<or> u = 0x2028 \<or> u = 0x2029
     \<or> u = 0x202F \<or> u = 0x205F \<or> u = 0x3000 \<or> u = 0xFEFF)"

definition trim :: "jsstring \<Rightarrow> jsstring" where
  "trim s = rev (dropWhile is_ws (rev (dropWhile is_ws s)))"

definition nl :: "16 word" where
  "nl = 0xA"

text \<open>\<^verbatim>\<open>s.split('\n')\<close>: the pieces between the newlines; the empty string gives one empty piece.\<close>

fun split_nl :: "jsstring \<Rightarrow> jsstring list" where
  "split_nl [] = [[]]"
| "split_nl (c # cs) =
     (if c = nl then [] # split_nl cs
      else (case split_nl cs of [] \<Rightarrow> [[c]] | l # ls \<Rightarrow> (c # l) # ls))"

text \<open>\<^verbatim>\<open>text.trim().split('\n').filter(Boolean)\<close>, as all three functions of the worker read the blob.\<close>

definition record_lines :: "jsstring \<Rightarrow> jsstring list" where
  "record_lines text = filter (\<lambda>line. line \<noteq> []) (split_nl (trim text))"

section \<open>Responses and the remote host\<close>

text \<open>
  \<^verbatim>\<open>jsonResponse(data, status)\<close>: the status and the object that is serialised as the body
  (the headers are the same constants on every response).
\<close>

record response =
  status :: nat
  body :: jsval

definition jsonResponse :: "jsval \<Rightarrow> nat \<Rightarrow> response" where
  "jsonResponse data st = \<lparr>status = st, body = data\<rparr>"

text \<open>
  What a \<^verbatim>\<open>fetch\<close> gives: it throws (the network failed), or the response is not
  \<^verbatim>\<open>ok\<close> (with its body text), or it is \<^verbatim>\<open>ok\<close>.
\<close>

datatype 'a reply = Rejected | NotOk jsstring | Ok 'a

text \<open>
  The contents API answers a read with the file's content and its version token
  \<^verbatim>\<open>sha\<close>; \<open>currentContent\<close> is the content as the worker decodes it
  (\<^verbatim>\<open>atob(fileData.content.replace(/\n/g, ''))\<close>). An update carries a commit message,
  the new content (sent as \<^verbatim>\<open>btoa(newContent)\<close>) and the \<^verbatim>\<open>sha\<close> it was derived
  from.
\<close>

record file_data =
  currentContent :: jsstring
  file_sha :: jsval

text \<open>
  The body of an \<^verbatim>\<open>ok\<close> answer to the read, as the worker gets through it: the body is
  not JSON and \<^verbatim>\<open>fileResponse.json()\<close> throws a SyntaxError; or it is JSON without a
  string \<^verbatim>\<open>content\<close> and \<^verbatim>\<open>fileData.content.replace\<close> throws a TypeError; or the
  content is not base64 and \<^verbatim>\<open>atob\<close> throws an InvalidCharacterError; or it decodes.
\<close>

datatype contents = NotJSON | NoContent | NotBase64 | Decoded file_data

record put_body =
  message :: jsstring
  newContent :: jsstring
  sha :: jsval

text \<open>The requests a call sends, in order, each with its \<^verbatim>\<open>Authorization\<close> token.\<close>

datatype request = GET jsstring | PUT jsstring put_body

record env =
  GITHUB_TOKEN :: "jsstring option"

section \<open>Reading: getDatabase and lookupDisc\<close>

text \<open>\<^verbatim>\<open>lines.map(line => JSON.parse(line))\<close>: the first line that does not parse throws.\<close>

fun parse_all :: "builtins \<Rightarrow> jsstring list \<Rightarrow> exn + jsval list" where
  "parse_all b [] = Inr []"
| "parse_all b (line # rest) =
     (case JSON_parse b line of
        None \<Rightarrow> Inl SyntaxError
      | Some v \<Rightarrow> (case parse_all b rest of Inl x \<Rightarrow> Inl x | Inr vs \<Rightarrow> Inr (v # vs)))"

definition getDatabase :: "builtins \<Rightarrow> jsstring reply \<Rightarrow> exn + response" where
  "getDatabase b fetched =
     (case fetched of
        Rejected \<Rightarrow> Inl NetworkError
      | NotOk t \<Rightarrow> Inr (jsonResponse (JObj [(js ''error'', JStr (js ''Failed to fetch database''))]) 500)
      | Ok text \<Rightarrow>
          (case parse_all b (record_lines text) of
             Inl x \<Rightarrow> Inl x
           | Inr entries \<Rightarrow>
               Inr (jsonResponse
                 (JObj [(js ''count'', JNum (Fin (of_nat (length entries)))),
                        (js ''entries'', JArr entries)]) 200)))"

text \<open>\<^verbatim>\<open>entries.find(p)\<close> with a predicate that can throw; \<^verbatim>\<open>undefined\<close> when no entry satisfies it.\<close>

fun js_find :: "(jsval \<Rightarrow> exn + bool) \<Rightarrow> jsval list \<Rightarrow> exn + jsval" where
  "js_find p [] = Inr JUndefined"
| "js_find p (e # es) =
     (case p e of
        Inl x \<Rightarrow> Inl x
      | Inr True \<Rightarrow> Inr e
      | Inr False \<Rightarrow> js_find p es)"

text \<open>\<^verbatim>\<open>e => e.disc_label === label\<close>\<close>

definition exact_pred :: "jsval \<Rightarrow> jsval \<Rightarrow> exn + bool" where
  "exact_pred label e =
     (case property e (js ''disc_label'') of
        Inl x \<Rightarrow> Inl x
      | Inr v \<Rightarrow> Inr (strict_eq v label))"

text \<open>
  \<^verbatim>\<open>e => Math.abs(e.duration_secs - duration) <= tolerance && e.disc_type === 'dvd'\<close>
\<close>

definition fuzzy_pred :: "builtins \<Rightarrow> jsnum \<Rightarrow> jsnum \<Rightarrow> jsval \<Rightarrow> exn + bool" where
  "fuzzy_pred b duration tolerance e =
     (case property e (js ''duration_secs'') of
        Inl x \<Rightarrow> Inl x
      | Inr d \<Rightarrow>
          (case to_number b d of
             Inl x \<Rightarrow> Inl x
           | Inr n \<Rightarrow>
               if num_le (num_abs (num_sub n duration)) tolerance
               then (case property e (js ''disc_type'') of
                       Inl x \<Rightarrow> Inl x
                     | Inr t \<Rightarrow> Inr (strict_eq t (JStr (js ''dvd''))))
               else Inr False))"

text \<open>
  \<^verbatim>\<open>lookupDisc(label, duration)\<close>, given what the fetch of the raw file returns. The
  label is a string or \<^verbatim>\<open>null\<close> (\<^verbatim>\<open>searchParams.get\<close>), the duration a number: the
  handler passes \<^verbatim>\<open>parseInt(url.searchParams.get('duration') || '0')\<close>, which is 0 when
  the parameter is absent and \<^verbatim>\<open>NaN\<close> when it is not a number.
\<close>

definition lookupDisc :: "builtins \<Rightarrow> jsval \<Rightarrow> jsnum \<Rightarrow> jsstring reply \<Rightarrow> exn + response" where
  "lookupDisc b label duration fetched =
     (if \<not> truthy label
      then Inr (jsonResponse (JObj [(js ''error'', JStr (js ''Missing label parameter''))]) 400)
      else
        (case fetched of
           Rejected \<Rightarrow> Inl NetworkError
         | NotOk t \<Rightarrow> Inr (jsonResponse (JObj [(js ''error'', JStr (js ''Failed to fetch database''))]) 500)
         | Ok text \<Rightarrow>
             (case parse_all b (record_lines text) of
                Inl x \<Rightarrow> Inl x
              | Inr entries \<Rightarrow>
                  (case js_find (exact_pred label) entries of
                     Inl x \<Rightarrow> Inl x
                   | Inr exact \<Rightarrow>
                       (case (if \<not> truthy exact \<and> num_gt duration (Fin 0)
                              then js_find (fuzzy_pred b duration (num_mul duration (Fin (5 / 100)))) entries
                              else Inr exact) of
                          Inl x \<Rightarrow> Inl x
                        | Inr match \<Rightarrow>
                            if truthy match
                            then Inr (jsonResponse
                                   (JObj [(js ''found'', JBool True), (js ''entry'', match)]) 200)
                            else Inr (jsonResponse
                                   (JObj [(js ''found'', JBool False), (js ''label'', label),
                                          (js ''duration'', JNum duration)]) 200))))))"

section \<open>Writing: contributeDisc\<close>

definition required :: "jsstring list" where
  "required = [js ''disc_label'', js ''disc_type'', js ''duration_secs'', js ''title'']"

text \<open>
  The validation loop \<^verbatim>\<open>for (const field of required) if (!data[field]) return ...\<close>:
  the first field that is falsy, if any.
\<close>

fun first_missing :: "jsval \<Rightarrow> jsstring list \<Rightarrow> exn + jsstring option" where
  "first_missing data [] = Inr None"
| "first_missing data (field # rest) =
     (case property data field of
        Inl x \<Rightarrow> Inl x
      | Inr v \<Rightarrow> if \<not> truthy v then Inr (Some field) else first_missing data rest)"

text \<open>
  The object literal \<^verbatim>\<open>entry\<close>; \<open>now\<close> is \<^verbatim>\<open>new Date().toISOString()\<close>. It is built
  after the validation loop, which has read \<^verbatim>\<open>data\<close>'s properties without throwing, so
  the reads here do not throw either.
\<close>

definition make_entry :: "jsval \<Rightarrow> jsstring \<Rightarrow> jsval" where
  "make_entry data now =
     JObj [(js ''disc_label'', get data (js ''disc_label'')),
           (js ''disc_type'', get data (js ''disc_type'')),
           (js ''duration_secs'', get data (js ''duration_secs'')),
           (js ''track_count'', js_or (get data (js ''track_count'')) (JNum (Fin 0))),
           (js ''title'', get data (js ''title'')),
           (js ''year'', js_or (get data (js ''year'')) JNull),
           (js ''tmdb_id'', js_or (get data (js ''tmdb_id'')) JNull),
           (js ''contributed_at'', JStr now)]"

text \<open>
  The callback of \<^verbatim>\<open>existingEntries.some\<close>: a line that does not parse, or whose value
  has no readable \<^verbatim>\<open>disc_label\<close>, is caught and counts as no duplicate.
\<close>

definition same_label :: "builtins \<Rightarrow> jsval \<Rightarrow> jsstring \<Rightarrow> bool" where
  "same_label b entry line =
     (case JSON_parse b line of
        None \<Rightarrow> False
      | Some existing \<Rightarrow>
          (case property existing (js ''disc_label'') of
             Inl x \<Rightarrow> False
           | Inr v \<Rightarrow> strict_eq v (get entry (js ''disc_label''))))"

text \<open>The template literal \<^verbatim>\<open>${v}\<close>.\<close>

fun to_string :: "builtins \<Rightarrow> jsval \<Rightarrow> exn + jsstring" where
  "to_string b (JStr s) = Inr s"
| "to_string b v = (case ToString_other b v of None \<Rightarrow> Inl TypeError | Some s \<Rightarrow> Inr s)"

text \<open>\<^verbatim>\<open>`Add disc: ${entry.disc_label} -> ${entry.title}`\<close>\<close>

definition commit_message :: "builtins \<Rightarrow> jsval \<Rightarrow> exn + jsstring" where
  "commit_message b entry =
     (case to_string b (get entry (js ''disc_label'')) of
        Inl x \<Rightarrow> Inl x
      | Inr l \<Rightarrow>
          (case to_string b (get entry (js ''title'')) of
             Inl x \<Rightarrow> Inl x
           | Inr t \<Rightarrow> Inr (js ''Add disc: '' @ l @ js '' -> '' @ t)))"

text \<open>\<^verbatim>\<open>btoa\<close> throws on a code unit above 255.\<close>

definition latin1 :: "jsstring \<Rightarrow> bool" where
  "latin1 s = list_all (\<lambda>u. u \<le> 0xFF) s"

text \<open>
  \<^verbatim>\<open>contributeDisc(data, env)\<close>. \<open>fetched\<close> is what the read of the file returns and
  \<open>host_put\<close> how the host answers an update; the result is what the call returns or
  throws, with the requests it has sent.
\<close>

definition contributeDisc ::
  "builtins \<Rightarrow> jsstring \<Rightarrow> contents reply \<Rightarrow> (put_body \<Rightarrow> unit reply) \<Rightarrow> jsval \<Rightarrow> env
     \<Rightarrow> (exn + response) \<times> request list" where
  "contributeDisc b now fetched host_put data env =
     (case first_missing data required of
        Inl x \<Rightarrow> (Inl x, [])
      | Inr (Some field) \<Rightarrow>
          (Inr (jsonResponse
             (JObj [(js ''error'', JStr (js ''Missing required field: '' @ field))]) 400), [])
      | Inr None \<Rightarrow>
          (case GITHUB_TOKEN env of
             None \<Rightarrow>
               (Inr (jsonResponse
                  (JObj [(js ''error'', JStr (js ''Server not configured for contributions''))]) 500), [])
           | Some token \<Rightarrow>
               if token = []
               then (Inr (jsonResponse
                  (JObj [(js ''error'', JStr (js ''Server not configured for contributions''))]) 500), [])
               else
                 let entry = make_entry data now in
                 (case fetched of
                    Rejected \<Rightarrow> (Inl NetworkError, [GET token])
                  | NotOk t \<Rightarrow>
                      (Inr (jsonResponse
                         (JObj [(js ''error'', JStr (js ''Failed to fetch current database''))]) 500),
                       [GET token])
                  | Ok NotJSON \<Rightarrow> (Inl SyntaxError, [GET token])
                  | Ok NoContent \<Rightarrow> (Inl TypeError, [GET token])
                  | Ok NotBase64 \<Rightarrow> (Inl InvalidCharacterError, [GET token])
                  | Ok (Decoded fileData) \<Rightarrow>
                      let existingEntries = record_lines (currentContent fileData);
                          isDuplicate = list_ex (same_label b entry) existingEntries
                      in
                        if isDuplicate
                        then (Inr (jsonResponse
                               (JObj [(js ''success'', JBool True),
                                      (js ''message'', JStr (js ''Entry already exists'')),
                                      (js ''duplicate'', JBool True)]) 200),
                              [GET token])
                        else
                          let content = trim (currentContent fileData) @ [nl]
                                          @ JSON_stringify b entry @ [nl]
                          in
                            (case commit_message b entry of
                               Inl x \<Rightarrow> (Inl x, [GET token])
                             | Inr msg \<Rightarrow>
                                 if \<not> latin1 content
                                 then (Inl InvalidCharacterError, [GET token])
                                 else
                                   let update = \<lparr>message = msg, newContent = content,
                                                 sha = file_sha fileData\<rparr>
                                   in
                                     (case host_put update of
                                        Rejected \<Rightarrow>
                                          (Inl NetworkError, [GET token, PUT token update])
                                      | NotOk err \<Rightarrow>
                                          (Inr (jsonResponse
                                             (JObj [(js ''error'', JStr (js ''Failed to commit contribution'')),
                                                    (js ''details'', JStr err)]) 500),
                                           [GET token, PUT token update])
                                      | Ok u \<Rightarrow>
                                          (Inr (jsonResponse
                                             (JObj [(js ''success'', JBool True),
                                                    (js ''message'', JStr (js ''Contribution added'')),
                                                    (js ''entry'', entry)]) 200),
                                           [GET token, PUT token update]))))))"

section \<open>Notions the properties are stated with\<close>

text \<open>
  A string that is one line of the blob as \<open>record_lines\<close> reads it: not empty, without
  a newline, and without white space at either end. \<^verbatim>\<open>JSON.stringify\<close> of an object is
  such a string (it starts with an opening and ends with a closing brace, and it escapes
  every newline inside).
\<close>

definition one_line :: "jsstring \<Rightarrow> bool" where
  "one_line s = (s \<noteq> [] \<and> nl \<notin> set s \<and> \<not> is_ws (hd s) \<and> \<not> is_ws (last s))"

text \<open>
  The \<^verbatim>\<open>disc_label\<close>s of a blob, as the duplicate scan of \<open>contributeDisc\<close> reads
  them: one for each line that parses to a value whose \<^verbatim>\<open>disc_label\<close> can be read.
\<close>

definition line_labels :: "builtins \<Rightarrow> jsstring \<Rightarrow> jsval list" where
  "line_labels b line =
     (case JSON_parse b line of
        None \<Rightarrow> []
      | Some v \<Rightarrow> (case property v (js ''disc_label'') of Inl x \<Rightarrow> [] | Inr l \<Rightarrow> [l]))"

definition labels :: "builtins \<Rightarrow> jsstring \<Rightarrow> jsval list" where
  "labels b blob = concat (map (line_labels b) (record_lines blob))"

text \<open>The fields of a disc record, in the order of the data model.\<close>

definition schema_fields :: "jsstring list" where
  "schema_fields = [js ''disc_label'', js ''disc_type'', js ''duration_secs'', js ''track_count'',
                    js ''title'', js ''year'', js ''tmdb_id'', js ''contributed_at'']"

section \<open>Sample data\<close>

text \<open>
  The record of the repository's README, with the line that holds it in the blob, and two
  more records; \<open>walle\<close> is the entry that \<open>contributeDisc\<close> builds from the request
  \<open>walle_data\<close> at the time \<open>now0\<close>.
\<close>

definition santa :: jsval where
  "santa = JObj [(js ''disc_label'', JStr (js ''SC30NNW1'')),
                 (js ''disc_type'', JStr (js ''dvd'')),
                 (js ''duration_secs'', JNum (Fin 5501)),
                 (js ''track_count'', JNum (Fin 12)),
                 (js ''title'', JStr (js ''The Santa Clause 3: The Escape Clause'')),
                 (js ''year'', JNum (Fin 2006)),
                 (js ''tmdb_id'', JNum (Fin 10431)),
                 (js ''contributed_at'', JStr (js ''2026-01-23T14:23:13Z''))]"

definition santa_line :: jsstring where
  "santa_line = js ''{\"disc_label\":\"SC30NNW1\",\"disc_type\":\"dvd\",\"duration_secs\":5501,\"track_count\":12,\"title\":\"The Santa Clause 3: The Escape Clause\",\"year\":2006,\"tmdb_id\":10431,\"contributed_at\":\"2026-01-23T14:23:13Z\"}''"

definition gladiator :: jsval where
  "gladiator = JObj [(js ''disc_label'', JStr (js ''GLADIATOR_BD'')),
                     (js ''disc_type'', JStr (js ''bluray'')),
                     (js ''duration_secs'', JNum (Fin 5501))]"

definition gladiator_line :: jsstring where
  "gladiator_line = js ''{\"disc_label\":\"GLADIATOR_BD\",\"disc_type\":\"bluray\",\"duration_secs\":5501}''"

definition walle_data :: jsval where
  "walle_data = JObj [(js ''disc_label'', JStr (js ''WALL_E'')),
                      (js ''disc_type'', JStr (js ''dvd'')),
                      (js ''duration_secs'', JNum (Fin 5880)),
                      (js ''title'', JStr (js ''WALL-E'')),
                      (js ''contributed_at'', JStr (js ''1999-12-31T23:59:59.000Z'')),
                      (js ''ripper'', JStr (js ''someone''))]"

definition now0 :: jsstring where
  "now0 = js ''2026-11-03T09:00:00.000Z''"

text \<open>A later request for the same label, with other values.\<close>

definition walle_again :: jsval where
  "walle_again = JObj [(js ''disc_label'', JStr (js ''WALL_E'')),
                       (js ''disc_type'', JStr (js ''bluray'')),
                       (js ''duration_secs'', JNum (Fin 5900)),
                       (js ''track_count'', JNum (Fin 16)),
                       (js ''title'', JStr (js ''WALL-E (2008)'')),
                       (js ''year'', JNum (Fin 2008))]"

definition now1 :: jsstring where
  "now1 = js ''2026-11-04T18:30:00.000Z''"

definition walle :: jsval where
  "walle = JObj [(js ''disc_label'', JStr (js ''WALL_E'')),
                 (js ''disc_type'', JStr (js ''dvd'')),
                 (js ''duration_secs'', JNum (Fin 5880)),
                 (js ''track_count'', JNum (Fin 0)),
                 (js ''title'', JStr (js ''WALL-E'')),
                 (js ''year'', JNull),
                 (js ''tmdb_id'', JNull),
                 (js ''contributed_at'', JStr (js ''2026-11-03T09:00:00.000Z''))]"

definition walle_line :: jsstring where
  "walle_line = js ''{\"disc_label\":\"WALL_E\",\"disc_type\":\"dvd\",\"duration_secs\":5880,\"track_count\":0,\"title\":\"WALL-E\",\"year\":null,\"tmdb_id\":null,\"contributed_at\":\"2026-11-03T09:00:00.000Z\"}''"

text \<open>
  A finite part of the built-ins, enough for the examples: \<^verbatim>\<open>JSON.parse\<close> and
  \<^verbatim>\<open>JSON.stringify\<close> on the three lines and values above, which they map to each other.
  Every other line counts as one that does not parse (the examples use one such line,
  \<^verbatim>\<open>not json\<close>); the conversions of strings, arrays and objects are not used by the
  examples.
\<close>

definition sample_table :: "(jsstring \<times> jsval) list" where
  "sample_table = [(santa_line, santa), (walle_line, walle), (gladiator_line, gladiator)]"

definition sample :: builtins where
  "sample = \<lparr>JSON_parse = map_of sample_table,
             JSON_stringify = (\<lambda>v. case find (\<lambda>(l, w). w = v) sample_table of
                                      Some (l, w) \<Rightarrow> l | None \<Rightarrow> js ''null''),
             ToNumber_other = (\<lambda>v. None),
             ToString_other = (\<lambda>v. None)\<rparr>"

text \<open>A blob with one record and one line that is not JSON, as the contents API returns it.\<close>

definition blob0 :: file_data where
  "blob0 = \<lparr>currentContent = santa_line @ [nl] @ js ''not json'' @ [nl],
            file_sha = JStr (js ''3d21ec53a331a6f037a91c368710b99387d012c1'')\<rparr>"

text \<open>The same blob after \<open>walle\<close> has been appended, and a blob of three records.\<close>

definition blob1 :: file_data where
  "blob1 = \<lparr>currentContent = santa_line @ [nl] @ js ''not json'' @ [nl] @ walle_line @ [nl],
            file_sha = JStr (js ''95b1e2a7c1f04d0e8a4f5c0c5b1c41bb6e0d2f7a'')\<rparr>"

text \<open>A blob whose only line is not JSON.\<close>

definition blob_bad :: file_data where
  "blob_bad = \<lparr>currentContent = js ''not json'' @ [nl],
               file_sha = JStr (js ''7c4a8d09ca3762af61e59520943dc26494f8941b'')\<rparr>"

definition catalog :: jsstring where
  "catalog = gladiator_line @ [nl] @ santa_line @ [nl] @ walle_line @ [nl]"

definition env0 :: env where
  "env0 = \<lparr>GITHUB_TOKEN = Some (js ''ghp_token'')\<rparr>"

text \<open>A request whose four required fields are all present, with a duration of 0 seconds.\<close>

definition zero_duration_data :: jsval where
  "zero_duration_data = JObj [(js ''disc_label'', JStr (js ''SC30NNW1'')),
                              (js ''disc_type'', JStr (js ''dvd'')),
                              (js ''duration_secs'', JNum (Fin 0)),
                              (js ''title'', JStr (js ''The Santa Clause 3: The Escape Clause''))]"

section \<open>Strings and lines\<close>

lemma unat_of_char16: "unat (of_char c :: 16 word) = of_char c"
proof -
  have "(of_char c :: nat) mod 256 = of_char c" by (rule of_char_mod_256)
  then have "(of_char c :: nat) < 256"
    by (metis mod_less_divisor zero_less_numeral)
  then have lt: "(of_char c :: nat) < 65536" by linarith
  have "(of_char c :: 16 word) = of_nat (of_char c)" by (simp add: of_nat_of_char)
  then have "unat (of_char c :: 16 word) = unat (of_nat (of_char c :: nat) :: 16 word)" by simp
  also have "\<dots> = of_char c" using lt by (simp add: unat_of_nat)
  finally show ?thesis .
qed

lemma of_char16_eq_iff: "(of_char c :: 16 word) = of_char d \<longleftrightarrow> c = d"
proof
  assume "(of_char c :: 16 word) = of_char d"
  then have "unat (of_char c :: 16 word) = unat (of_char d :: 16 word)" by simp
  then have "(of_char c :: nat) = of_char d" by (simp only: unat_of_char16)
  then show "c = d" by simp
qed simp

lemma js_eq_iff: "js s = js t \<longleftrightarrow> s = t"
proof -
  have "inj (of_char :: char \<Rightarrow> 16 word)"
    by (rule injI) (simp only: of_char16_eq_iff)
  then show ?thesis unfolding js_def by (rule inj_map_eq_map)
qed

lemma trim_cons_ws: "is_ws w \<Longrightarrow> trim (w # s) = trim s"
  by (simp add: trim_def)

lemma trim_snoc_ws:
  assumes "is_ws w"
  shows "trim (s @ [w]) = trim s"
proof (cases "\<forall>x\<in>set s. is_ws x")
  case True
  then have a: "dropWhile is_ws (s @ [w]) = []" and b: "dropWhile is_ws s = []"
    using assms by simp_all
  show ?thesis unfolding trim_def a b by simp
next
  case False
  then have "dropWhile is_ws (s @ [w]) = dropWhile is_ws s @ [w]"
    by (simp add: dropWhile_append)
  then show ?thesis using assms by (simp add: trim_def)
qed

lemma trim_ends:
  assumes "s \<noteq> []" "\<not> is_ws (hd s)" "\<not> is_ws (last s)"
  shows "trim s = s"
proof -
  have "dropWhile is_ws s = s"
    using assms by (simp add: dropWhile_eq_self_iff)
  moreover have "dropWhile is_ws (rev s) = rev s"
    using assms by (simp add: dropWhile_eq_self_iff hd_rev)
  ultimately show ?thesis by (simp add: trim_def)
qed

lemma trim_shape:
  assumes "trim s \<noteq> []"
  shows "\<not> is_ws (hd (trim s))" and "\<not> is_ws (last (trim s))"
proof -
  define d where "d = dropWhile is_ws s"
  define r where "r = dropWhile is_ws (rev d)"
  have t: "trim s = rev r" by (simp add: trim_def d_def r_def)
  with assms have r: "r \<noteq> []" by simp
  then have hr: "\<not> is_ws (hd r)" unfolding r_def by (rule hd_dropWhile)
  then show "\<not> is_ws (last (trim s))" by (simp add: t last_rev)
  from r have d: "d \<noteq> []" unfolding r_def by auto
  then have hd: "\<not> is_ws (hd d)" unfolding d_def by (rule hd_dropWhile)
  have "hd r \<in> set (rev d)"
    using r unfolding r_def by (meson hd_in_set set_dropWhileD)
  with hr have "last r = last (rev d)" unfolding r_def by (rule dropWhile_last [rotated])
  then have "hd (trim s) = hd d" by (simp add: t hd_rev last_rev)
  with hd show "\<not> is_ws (hd (trim s))" by simp
qed

lemma trim_trim: "trim (trim s) = trim s"
proof (cases "trim s = []")
  case True
  then show ?thesis by (simp add: trim_def [of "[]"])
next
  case False
  then show ?thesis by (intro trim_ends trim_shape)
qed

lemma split_nl_nonempty: "split_nl s \<noteq> []"
  by (induction s) (simp_all split: list.splits)

lemma split_nl_append: "split_nl (a @ nl # c) = split_nl a @ split_nl c"
  by (induction a) (simp_all split: list.splits add: split_nl_nonempty)

lemma split_nl_single: "nl \<notin> set s \<Longrightarrow> split_nl s = [s]"
  by (induction s) auto

lemma is_ws_nl: "is_ws nl" by (simp add: is_ws_def nl_def)

lemma record_lines_append:
  assumes "one_line J"
  shows "record_lines (trim c @ [nl] @ J @ [nl]) = record_lines c @ [J]"
proof (cases "trim c = []")
  case True
  have "trim (nl # J @ [nl]) = trim (J @ [nl])" by (rule trim_cons_ws) (rule is_ws_nl)
  also have "\<dots> = trim J" by (rule trim_snoc_ws) (rule is_ws_nl)
  also have "\<dots> = J" using assms by (intro trim_ends) (simp_all add: one_line_def)
  finally have "trim (nl # J @ [nl]) = J" .
  then show ?thesis using True assms
    by (simp add: record_lines_def split_nl_single one_line_def)
next
  case False
  let ?T = "trim c"
  from False have e: "\<not> is_ws (hd ?T)" "\<not> is_ws (last ?T)" by (rule trim_shape)+
  have "trim ((?T @ nl # J) @ [nl]) = trim (?T @ nl # J)"
    by (rule trim_snoc_ws) (rule is_ws_nl)
  also have "\<dots> = ?T @ nl # J"
    using False e assms by (intro trim_ends) (simp_all add: one_line_def)
  finally have "trim (?T @ [nl] @ J @ [nl]) = ?T @ nl # J" by simp
  then show ?thesis using assms
    by (simp add: record_lines_def split_nl_append split_nl_single one_line_def trim_trim)
qed

section \<open>Lookup\<close>

lemma js_find_first:
  "(\<And>x. x \<in> set pre \<Longrightarrow> p x = Inr False) \<Longrightarrow> p e = Inr True \<Longrightarrow> js_find p (pre @ e # post) = Inr e"
  by (induction pre) simp_all

lemma js_find_none:
  "(\<And>x. x \<in> set es \<Longrightarrow> p x = Inr False) \<Longrightarrow> js_find p es = Inr JUndefined"
  by (induction es) simp_all

lemma js_find_Inr:
  "js_find p es = Inr m \<Longrightarrow> m = JUndefined \<or> (m \<in> set es \<and> p m = Inr True)"
  by (induction es) (auto split: sum.splits bool.splits)

lemma strict_eq_JStr: "strict_eq v (JStr l) \<longleftrightarrow> v = JStr l"
  by (cases "(v, JStr l)" rule: strict_eq.cases) auto

lemma get_JStr_obj: "get e k = JStr l \<Longrightarrow> \<exists>kvs. e = JObj kvs"
  by (cases e) simp_all

lemma get_JNum_obj: "get e k = JNum n \<Longrightarrow> \<exists>kvs. e = JObj kvs"
  by (cases e) simp_all

lemma property_obj: "property (JObj kvs) k = Inr (get (JObj kvs) k)"
  by (simp add: property_def)

lemma exact_pred_False:
  "x \<noteq> JNull \<Longrightarrow> x \<noteq> JUndefined \<Longrightarrow> get x (js ''disc_label'') \<noteq> JStr l \<Longrightarrow> exact_pred (JStr l) x = Inr False"
  by (simp add: exact_pred_def property_def strict_eq_JStr)

lemma exact_pred_True:
  "get x (js ''disc_label'') = JStr l \<Longrightarrow> exact_pred (JStr l) x = Inr True"
  by (auto simp: exact_pred_def property_def strict_eq_JStr dest: get_JStr_obj)

lemma fuzzy_pred_True:
  assumes "fuzzy_pred b duration tolerance e = Inr True"
  shows "get e (js ''disc_type'') = JStr (js ''dvd'')"
  using assms
  by (auto simp: fuzzy_pred_def property_def strict_eq_JStr split: sum.splits if_splits)

section \<open>Contribution\<close>

subsection \<open>The validation loop\<close>

lemma js_eq_Nil: "js s = [] \<longleftrightarrow> s = []"
  by (simp add: js_def)

lemma js_append: "js s @ js t = js (s @ t)"
  by (simp add: js_def)

lemma first_missing_None:
  "first_missing data fs = Inr None \<Longrightarrow> f \<in> set fs \<Longrightarrow> truthy (get data f)"
  by (induction fs) (auto simp: property_def split: if_splits)

lemma first_missing_Some:
  "first_missing data fs = Inr (Some f) \<Longrightarrow> f \<in> set fs \<and> \<not> truthy (get data f)"
  by (induction fs) (auto simp: property_def split: if_splits)

lemma first_missing_obj:
  "first_missing (JObj kvs) fs = Inr (find (\<lambda>f. \<not> truthy (get (JObj kvs) f)) fs)"
  by (induction fs) (simp_all add: property_def)

text \<open>
  What the validation loop decides: a request passes when it is neither \<^verbatim>\<open>null\<close> nor
  \<^verbatim>\<open>undefined\<close> and its four required fields are truthy; otherwise the loop stops at the
  first required field that is falsy, whether the field is absent or present with a value
  such as 0 or the empty string.
\<close>

lemma validation_passes_iff:
  "first_missing data required = Inr None \<longleftrightarrow>
     data \<noteq> JNull \<and> data \<noteq> JUndefined
     \<and> truthy (get data (js ''disc_label'')) \<and> truthy (get data (js ''disc_type''))
     \<and> truthy (get data (js ''duration_secs'')) \<and> truthy (get data (js ''title''))"
  by (auto simp: required_def property_def)

lemma validation_stops_at_first_falsy:
  "first_missing data required = Inr (Some f) \<longleftrightarrow>
     data \<noteq> JNull \<and> data \<noteq> JUndefined
     \<and> find (\<lambda>f. \<not> truthy (get data f)) required = Some f"
  by (auto simp: required_def property_def)

subsection \<open>The paths through contributeDisc\<close>

lemma contributeDisc_write:
  assumes "first_missing data required = Inr None"
    and "GITHUB_TOKEN env = Some t" and "t \<noteq> []"
    and "fetched = Ok (Decoded fd)"
    and "\<not> list_ex (same_label b (make_entry data now)) (record_lines (currentContent fd))"
    and "commit_message b (make_entry data now) = Inr msg"
    and "latin1 (trim (currentContent fd) @ [nl] @ JSON_stringify b (make_entry data now) @ [nl])"
    and "u = \<lparr>message = msg,
              newContent = trim (currentContent fd) @ [nl] @ JSON_stringify b (make_entry data now) @ [nl],
              sha = file_sha fd\<rparr>"
  shows "contributeDisc b now fetched host_put data env =
    (case host_put u of
       Rejected \<Rightarrow> Inl NetworkError
     | NotOk err \<Rightarrow>
         Inr (jsonResponse (JObj [(js ''error'', JStr (js ''Failed to commit contribution'')),
                                  (js ''details'', JStr err)]) 500)
     | Ok x \<Rightarrow>
         Inr (jsonResponse (JObj [(js ''success'', JBool True),
                                  (js ''message'', JStr (js ''Contribution added'')),
                                  (js ''entry'', make_entry data now)]) 200),
     [GET t, PUT t u])"
  using assms by (simp add: contributeDisc_def Let_def split: reply.splits)

lemma contributeDisc_no_write:
  assumes "first_missing data required = Inr None"
    and "GITHUB_TOKEN env = Some t" and "t \<noteq> []"
    and "fetched = Ok (Decoded fd)"
    and "\<not> list_ex (same_label b (make_entry data now)) (record_lines (currentContent fd))"
    and "commit_message b (make_entry data now) = Inl x
         \<or> \<not> latin1 (trim (currentContent fd) @ [nl] @ JSON_stringify b (make_entry data now) @ [nl])"
  shows "\<exists>y. contributeDisc b now fetched host_put data env = (Inl y, [GET t])"
  using assms by (auto simp: contributeDisc_def Let_def split: sum.splits)

lemma contributeDisc_duplicate:
  assumes "first_missing data required = Inr None"
    and "GITHUB_TOKEN env = Some t" and "t \<noteq> []"
    and "fetched = Ok (Decoded fd)"
    and "list_ex (same_label b (make_entry data now)) (record_lines (currentContent fd))"
  shows "contributeDisc b now fetched host_put data env =
    (Inr (jsonResponse (JObj [(js ''success'', JBool True),
                              (js ''message'', JStr (js ''Entry already exists'')),
                              (js ''duplicate'', JBool True)]) 200),
     [GET t])"
  using assms by (simp add: contributeDisc_def Let_def)

lemma contributeDisc_invalid:
  assumes "first_missing data required = Inr (Some field)"
  shows "contributeDisc b now fetched host_put data env =
    (Inr (jsonResponse (JObj [(js ''error'', JStr (js ''Missing required field: '' @ field))]) 400), [])"
  using assms by (simp add: contributeDisc_def)

lemma put_in_log:
  assumes "PUT t u \<in> set (snd (contributeDisc b now fetched host_put data env))"
  shows "\<exists>fd msg. first_missing data required = Inr None \<and> GITHUB_TOKEN env = Some t \<and> t \<noteq> []
     \<and> fetched = Ok (Decoded fd)
     \<and> \<not> list_ex (same_label b (make_entry data now)) (record_lines (currentContent fd))
     \<and> commit_message b (make_entry data now) = Inr msg
     \<and> latin1 (trim (currentContent fd) @ [nl] @ JSON_stringify b (make_entry data now) @ [nl])
     \<and> u = \<lparr>message = msg,
              newContent = trim (currentContent fd) @ [nl] @ JSON_stringify b (make_entry data now) @ [nl],
              sha = file_sha fd\<rparr>"
  using assms
  by (auto simp: contributeDisc_def Let_def split: sum.splits option.splits if_splits reply.splits contents.splits)

lemma entry_returned:
  assumes "fst (contributeDisc b now fetched host_put data env) = Inr r"
    and "get (body r) (js ''entry'') \<noteq> JUndefined"
  shows "r = jsonResponse (JObj [(js ''success'', JBool True),
                                  (js ''message'', JStr (js ''Contribution added'')),
                                  (js ''entry'', make_entry data now)]) 200
         \<and> (\<exists>t u. snd (contributeDisc b now fetched host_put data env) = [GET t, PUT t u]
               \<and> host_put u = Ok ())"
  using assms
  by (auto simp: contributeDisc_def Let_def jsonResponse_def js_eq_iff
      split: sum.splits option.splits if_splits reply.splits contents.splits)

lemma no_syntax_error:
  assumes "fetched \<noteq> Ok NotJSON"
  shows "fst (contributeDisc b now fetched host_put data env) \<noteq> Inl SyntaxError"
proof -
  have 1: "first_missing data fs \<noteq> Inl SyntaxError" for fs
    by (induction fs) (auto simp: property_def)
  have 2: "to_string b v \<noteq> Inl SyntaxError" for v
    by (cases v) (auto split: option.splits)
  have 3: "commit_message b e \<noteq> Inl SyntaxError" for e
    using 2 by (auto simp: commit_message_def split: sum.splits)
  show ?thesis
    using assms 1 [of required] 3 [of "make_entry data now"]
    by (auto simp: contributeDisc_def Let_def split: sum.splits option.splits if_splits reply.splits contents.splits)
qed

subsection \<open>The entry\<close>

lemma get_entry_label: "get (make_entry data now) (js ''disc_label'') = get data (js ''disc_label'')"
  by (simp add: make_entry_def)

lemma same_label_iff:
  "get entry (js ''disc_label'') = JStr l \<Longrightarrow> same_label b entry line \<longleftrightarrow> JStr l \<in> set (line_labels b line)"
  by (auto simp: same_label_def line_labels_def strict_eq_JStr split: option.splits sum.splits)

lemma duplicate_iff:
  "get entry (js ''disc_label'') = JStr l \<Longrightarrow>
     list_ex (same_label b entry) (record_lines blob) \<longleftrightarrow> JStr l \<in> set (labels b blob)"
  by (simp add: labels_def list_ex_iff same_label_iff)

lemma scan_iff:
  "list_ex (same_label b (make_entry data now)) lines \<longleftrightarrow>
     (\<exists>line\<in>set lines. \<exists>v. JSON_parse b line = Some v \<and> v \<noteq> JNull \<and> v \<noteq> JUndefined
        \<and> strict_eq (get v (js ''disc_label'')) (get data (js ''disc_label'')))"
  by (auto simp: list_ex_iff same_label_def property_def get_entry_label
      split: option.splits if_splits)

lemma labels_append:
  "one_line J \<Longrightarrow> labels b (trim blob @ [nl] @ J @ [nl]) = labels b blob @ line_labels b J"
  using record_lines_append [of J blob] by (simp add: labels_def)

lemma parse_all_fails:
  "line \<in> set lines \<Longrightarrow> JSON_parse b line = None \<Longrightarrow> parse_all b lines = Inl SyntaxError"
  by (induction lines) (auto split: option.splits sum.splits)

section \<open>Facts about the sample data\<close>

lemma one_line_samples:
  "one_line santa_line" "one_line walle_line" "one_line gladiator_line" "one_line (js ''not json'')"
  by (simp_all add: one_line_def santa_line_def walle_line_def gladiator_line_def js_def is_ws_def nl_def)

lemma latin1_samples:
  "latin1 santa_line" "latin1 walle_line" "latin1 (js ''not json'')" "latin1 [nl]"
  by (simp_all add: latin1_def santa_line_def walle_line_def js_def nl_def)

lemma latin1_append: "latin1 (s @ t) \<longleftrightarrow> latin1 s \<and> latin1 t"
  by (simp add: latin1_def)

lemma lines_differ:
  "santa_line \<noteq> walle_line" "santa_line \<noteq> gladiator_line" "walle_line \<noteq> gladiator_line"
  "js ''not json'' \<noteq> santa_line" "js ''not json'' \<noteq> walle_line" "js ''not json'' \<noteq> gladiator_line"
  by (simp_all add: santa_line_def walle_line_def gladiator_line_def js_eq_iff)

lemma values_differ: "santa \<noteq> walle" "gladiator \<noteq> walle"
  by (simp_all add: santa_def walle_def gladiator_def js_eq_iff)

lemma sample_parse:
  "JSON_parse sample santa_line = Some santa"
  "JSON_parse sample walle_line = Some walle"
  "JSON_parse sample gladiator_line = Some gladiator"
  "JSON_parse sample (js ''not json'') = None"
  using lines_differ by (simp_all add: sample_def sample_table_def)

lemma sample_stringify: "JSON_stringify sample walle = walle_line"
  using values_differ by (simp add: sample_def sample_table_def)

lemma sample_entry: "make_entry walle_data now0 = walle"
  by (simp add: make_entry_def walle_data_def walle_def now0_def js_or_def js_eq_iff)

lemma sample_valid: "first_missing walle_data required = Inr None"
  by (simp add: walle_data_def required_def property_def js_eq_iff js_eq_Nil)

lemma trim_line: "one_line a \<Longrightarrow> trim (a @ [nl]) = a"
  by (simp add: trim_snoc_ws is_ws_nl trim_ends one_line_def)

lemma trim_lines: "one_line a \<Longrightarrow> one_line c \<Longrightarrow> trim (a @ nl # c @ [nl]) = a @ nl # c"
  using trim_snoc_ws [OF is_ws_nl, of "a @ nl # c"] trim_ends [of "a @ nl # c"]
  by (simp add: one_line_def)

lemma record_lines_one: "one_line a \<Longrightarrow> record_lines (a @ [nl]) = [a]"
  by (simp add: record_lines_def trim_line split_nl_single one_line_def)

lemma record_lines_two:
  "one_line a \<Longrightarrow> one_line c \<Longrightarrow> record_lines (a @ nl # c @ [nl]) = [a, c]"
  using record_lines_append [of c "a @ [nl]"] by (simp add: trim_line record_lines_one)

lemma record_lines_three:
  "one_line a \<Longrightarrow> one_line c \<Longrightarrow> one_line d \<Longrightarrow>
     record_lines (a @ nl # c @ nl # d @ [nl]) = [a, c, d]"
  using record_lines_append [of d "a @ nl # c @ [nl]"] by (simp add: trim_lines record_lines_two)

lemma sample_lines:
  "record_lines (santa_line @ [nl]) = [santa_line]"
  "record_lines (currentContent blob0) = [santa_line, js ''not json'']"
  "record_lines (currentContent blob1) = [santa_line, js ''not json'', walle_line]"
  "record_lines catalog = [gladiator_line, santa_line, walle_line]"
  by (simp_all add: blob0_def blob1_def catalog_def one_line_samples
      record_lines_one record_lines_two record_lines_three)

lemma sample_labels:
  "labels sample (currentContent blob0) = [JStr (js ''SC30NNW1'')]"
  "labels sample (currentContent blob1) = [JStr (js ''SC30NNW1''), JStr (js ''WALL_E'')]"
  "line_labels sample walle_line = [JStr (js ''WALL_E'')]"
  by (simp_all add: labels_def sample_lines line_labels_def sample_parse property_def santa_def walle_def)

lemma sample_snapshots:
  "parse_all sample (record_lines (santa_line @ [nl])) = Inr [santa]"
  "parse_all sample (record_lines catalog) = Inr [gladiator, santa, walle]"
  "parse_all sample (record_lines (currentContent blob1)) = Inl SyntaxError"
  by (simp_all add: sample_lines sample_parse)

lemma sample_message:
  "commit_message sample walle = Inr (js ''Add disc: WALL_E -> WALL-E'')"
  by (simp add: commit_message_def walle_def js_eq_iff js_append)

lemma sample_blob0_trim:
  "trim (currentContent blob0) = santa_line @ [nl] @ js ''not json''"
  by (simp add: blob0_def trim_lines one_line_samples)

lemma sample_first:
  "contributeDisc sample now0 (Ok (Decoded blob0)) host_put walle_data env0 =
    (case host_put \<lparr>message = js ''Add disc: WALL_E -> WALL-E'',
                    newContent = currentContent blob1, sha = file_sha blob0\<rparr> of
       Rejected \<Rightarrow> Inl NetworkError
     | NotOk err \<Rightarrow>
         Inr (jsonResponse (JObj [(js ''error'', JStr (js ''Failed to commit contribution'')),
                                  (js ''details'', JStr err)]) 500)
     | Ok x \<Rightarrow>
         Inr (jsonResponse (JObj [(js ''success'', JBool True),
                                  (js ''message'', JStr (js ''Contribution added'')),
                                  (js ''entry'', walle)]) 200),
     [GET (js ''ghp_token''),
      PUT (js ''ghp_token'') \<lparr>message = js ''Add disc: WALL_E -> WALL-E'',
                    newContent = currentContent blob1, sha = file_sha blob0\<rparr>])"
proof -
  have d: "\<not> list_ex (same_label sample (make_entry walle_data now0)) (record_lines (currentContent blob0))"
    by (simp add: sample_entry sample_lines same_label_def sample_parse property_def santa_def walle_def js_eq_iff)
  have c: "trim (currentContent blob0) @ [nl] @ JSON_stringify sample (make_entry walle_data now0) @ [nl]
             = currentContent blob1"
    by (simp add: sample_entry sample_stringify sample_blob0_trim blob1_def)
  have l: "latin1 (trim (currentContent blob0) @ [nl] @ JSON_stringify sample (make_entry walle_data now0) @ [nl])"
    unfolding c using latin1_samples by (simp add: blob1_def latin1_def)
  have m: "commit_message sample (make_entry walle_data now0) = Inr (js ''Add disc: WALL_E -> WALL-E'')"
    by (simp add: sample_entry sample_message)
  have t: "GITHUB_TOKEN env0 = Some (js ''ghp_token'')" "js ''ghp_token'' \<noteq> []"
    by (simp_all add: env0_def js_eq_Nil)
  show ?thesis
    using contributeDisc_write [OF sample_valid t refl d m l refl, of host_put]
    unfolding c by (simp only: sample_entry)
qed

lemma sample_fresh:
  "\<not> list_ex (same_label sample (make_entry walle_data now0)) (record_lines (currentContent blob0))"
  by (simp add: sample_entry sample_lines same_label_def sample_parse property_def santa_def walle_def js_eq_iff)

lemma sample_token: "GITHUB_TOKEN env0 = Some (js ''ghp_token'')" "js ''ghp_token'' \<noteq> []"
  by (simp_all add: env0_def js_eq_Nil)

lemma sample_label: "get walle_data (js ''disc_label'') = JStr (js ''WALL_E'')"
  by (simp add: walle_data_def)

lemma sample_second:
  "contributeDisc sample now0 (Ok (Decoded blob1)) host_put walle_data env0 =
    (Inr (jsonResponse (JObj [(js ''success'', JBool True),
                              (js ''message'', JStr (js ''Entry already exists'')),
                              (js ''duplicate'', JBool True)]) 200),
     [GET (js ''ghp_token'')])"
proof -
  have "list_ex (same_label sample (make_entry walle_data now0)) (record_lines (currentContent blob1))"
    by (simp add: sample_entry sample_lines same_label_def sample_parse property_def santa_def walle_def js_eq_iff)
  with sample_valid sample_token show ?thesis
    by (intro contributeDisc_duplicate) simp_all
qed

lemma sample_lookup_fuzzy:
  "lookupDisc sample (JStr (js ''OTHER'')) (Fin 5501) (Ok catalog) =
     Inr (jsonResponse (JObj [(js ''found'', JBool True), (js ''entry'', santa)]) 200)"
  by (simp add: lookupDisc_def sample_snapshots exact_pred_def fuzzy_pred_def property_def
      santa_def walle_def gladiator_def js_eq_iff js_eq_Nil)

section \<open>The properties\<close>

text \<open>
  \<^bold>\<open>C1\<close> (idempotent contribution). Take a request that passes the validation, with the
  token configured and the blob read, whose \<^verbatim>\<open>disc_label\<close> is a string \<open>l\<close>. If \<open>l\<close>
  is already the \<^verbatim>\<open>disc_label\<close> of a line of the blob that parses, \<open>contributeDisc\<close>
  answers success with \<^verbatim>\<open>duplicate: true\<close> and has sent the read and nothing else. And
  whenever it does send an update, \<open>l\<close> was not a label of the blob read, and the labels of
  the new blob are those of the old one followed by \<open>l\<close> (the serialised entry being one
  line that reads back with its label), so labels that were pairwise distinct stay so; a
  later valid request with the label \<open>l\<close> that reads the new blob is answered as a
  duplicate and sends no update.
\<close>

theorem duplicate_contribution_is_noop:
  assumes "first_missing data required = Inr None"
    and "GITHUB_TOKEN env = Some t" and "t \<noteq> []"
    and "fetched = Ok (Decoded fd)"
    and "get data (js ''disc_label'') = JStr l"
  shows "(JStr l \<in> set (labels b (currentContent fd)) \<longrightarrow>
            contributeDisc b now fetched host_put data env =
              (Inr (jsonResponse (JObj [(js ''success'', JBool True),
                                        (js ''message'', JStr (js ''Entry already exists'')),
                                        (js ''duplicate'', JBool True)]) 200),
               [GET t]))
       \<and> (PUT t u \<in> set (snd (contributeDisc b now fetched host_put data env))
            \<and> one_line (JSON_stringify b (make_entry data now))
            \<and> line_labels b (JSON_stringify b (make_entry data now)) = [JStr l] \<longrightarrow>
          JStr l \<notin> set (labels b (currentContent fd))
          \<and> labels b (newContent u) = labels b (currentContent fd) @ [JStr l]
          \<and> (distinct (labels b (currentContent fd)) \<longrightarrow> distinct (labels b (newContent u)))
          \<and> (first_missing data2 required = Inr None
               \<and> get data2 (js ''disc_label'') = JStr l
               \<and> currentContent fd2 = newContent u \<longrightarrow>
             contributeDisc b now2 (Ok (Decoded fd2)) host_put2 data2 env =
               (Inr (jsonResponse (JObj [(js ''success'', JBool True),
                                         (js ''message'', JStr (js ''Entry already exists'')),
                                         (js ''duplicate'', JBool True)]) 200),
                [GET t])))"
proof (intro conjI impI)
  have l: "get (make_entry data now) (js ''disc_label'') = JStr l"
    using assms(5) by (simp add: get_entry_label)
  {
    assume "JStr l \<in> set (labels b (currentContent fd))"
    then have "list_ex (same_label b (make_entry data now)) (record_lines (currentContent fd))"
      using l by (simp add: duplicate_iff)
    then show "contributeDisc b now fetched host_put data env =
              (Inr (jsonResponse (JObj [(js ''success'', JBool True),
                                        (js ''message'', JStr (js ''Entry already exists'')),
                                        (js ''duplicate'', JBool True)]) 200),
               [GET t])"
      using assms(1-4) by (rule contributeDisc_duplicate [rotated -1])
  }
  assume J: "PUT t u \<in> set (snd (contributeDisc b now fetched host_put data env))
            \<and> one_line (JSON_stringify b (make_entry data now))
            \<and> line_labels b (JSON_stringify b (make_entry data now)) = [JStr l]"
  then have nd: "\<not> list_ex (same_label b (make_entry data now)) (record_lines (currentContent fd))"
    and u: "newContent u = trim (currentContent fd) @ [nl] @ JSON_stringify b (make_entry data now) @ [nl]"
    using assms(4) by (auto dest!: put_in_log)
  from nd l show fresh: "JStr l \<notin> set (labels b (currentContent fd))"
    by (simp add: duplicate_iff)
  from u J show app: "labels b (newContent u) = labels b (currentContent fd) @ [JStr l]"
    by (simp only: labels_append)
  {
    assume "distinct (labels b (currentContent fd))"
    with fresh app show "distinct (labels b (newContent u))" by simp
  }
  assume s: "first_missing data2 required = Inr None
               \<and> get data2 (js ''disc_label'') = JStr l
               \<and> currentContent fd2 = newContent u"
  then have "get (make_entry data2 now2) (js ''disc_label'') = JStr l"
    by (simp add: get_entry_label)
  moreover have "JStr l \<in> set (labels b (currentContent fd2))"
    using s app by simp
  ultimately have "list_ex (same_label b (make_entry data2 now2)) (record_lines (currentContent fd2))"
    by (simp add: duplicate_iff)
  with s assms(2,3) show "contributeDisc b now2 (Ok (Decoded fd2)) host_put2 data2 env =
               (Inr (jsonResponse (JObj [(js ''success'', JBool True),
                                         (js ''message'', JStr (js ''Entry already exists'')),
                                         (js ''duplicate'', JBool True)]) 200),
                [GET t])"
    by (intro contributeDisc_duplicate) auto
qed

text \<open>
  The sample request, sent twice: the first call appends \<open>walle\<close> to \<open>blob0\<close>, which gives
  \<open>blob1\<close>; the second call, and a call with another request for the same label, read
  \<open>blob1\<close> and send no update.
\<close>

theorem duplicate_contribution_is_noop_witness:
  "contributeDisc sample now0 (Ok (Decoded blob1)) (\<lambda>u. Ok ()) walle_data env0 =
     (Inr (jsonResponse (JObj [(js ''success'', JBool True),
                               (js ''message'', JStr (js ''Entry already exists'')),
                               (js ''duplicate'', JBool True)]) 200),
      [GET (js ''ghp_token'')])
   \<and> (\<exists>u. snd (contributeDisc sample now0 (Ok (Decoded blob0)) (\<lambda>u. Ok ()) walle_data env0) =
              [GET (js ''ghp_token''), PUT (js ''ghp_token'') u]
          \<and> newContent u = currentContent blob1
          \<and> labels sample (currentContent blob0) = [JStr (js ''SC30NNW1'')]
          \<and> labels sample (newContent u) = [JStr (js ''SC30NNW1''), JStr (js ''WALL_E'')]
          \<and> distinct (labels sample (newContent u)))
   \<and> contributeDisc sample now1 (Ok (Decoded blob1)) (\<lambda>u. Ok ()) walle_again env0 =
     (Inr (jsonResponse (JObj [(js ''success'', JBool True),
                               (js ''message'', JStr (js ''Entry already exists'')),
                               (js ''duplicate'', JBool True)]) 200),
      [GET (js ''ghp_token'')])"
proof (intro conjI)
  have "JStr (js ''WALL_E'') \<in> set (labels sample (currentContent blob1))"
    by (simp add: sample_labels)
  with duplicate_contribution_is_noop [OF sample_valid sample_token refl sample_label,
      where fd = blob1 and b = sample and now = now0 and host_put = "\<lambda>u. Ok ()"]
  show "contributeDisc sample now0 (Ok (Decoded blob1)) (\<lambda>u. Ok ()) walle_data env0 =
     (Inr (jsonResponse (JObj [(js ''success'', JBool True),
                               (js ''message'', JStr (js ''Entry already exists'')),
                               (js ''duplicate'', JBool True)]) 200),
      [GET (js ''ghp_token'')])"
    by blast
next
  let ?u = "\<lparr>message = js ''Add disc: WALL_E -> WALL-E'',
             newContent = currentContent blob1, sha = file_sha blob0\<rparr>"
  have s: "snd (contributeDisc sample now0 (Ok (Decoded blob0)) (\<lambda>u. Ok ()) walle_data env0) =
              [GET (js ''ghp_token''), PUT (js ''ghp_token'') ?u]"
    by (simp add: sample_first)
  have j: "PUT (js ''ghp_token'') ?u \<in> set (snd (contributeDisc sample now0 (Ok (Decoded blob0)) (\<lambda>u. Ok ()) walle_data env0))
         \<and> one_line (JSON_stringify sample (make_entry walle_data now0))
         \<and> line_labels sample (JSON_stringify sample (make_entry walle_data now0)) = [JStr (js ''WALL_E'')]"
    by (simp add: s sample_entry sample_stringify one_line_samples sample_labels)
  have d: "distinct (labels sample (currentContent blob0))"
    by (simp add: sample_labels)
  have a: "first_missing walle_again required = Inr None
               \<and> get walle_again (js ''disc_label'') = JStr (js ''WALL_E'')
               \<and> currentContent blob1 = newContent ?u"
    by (simp add: walle_again_def required_def property_def js_eq_iff js_eq_Nil)
  note t = duplicate_contribution_is_noop [OF sample_valid sample_token refl sample_label,
      where fd = blob0 and b = sample and now = now0 and host_put = "\<lambda>u. Ok ()" and u = ?u
        and ?data2.0 = walle_again and ?fd2.0 = blob1 and ?now2.0 = now1 and ?host_put2.0 = "\<lambda>u. Ok ()"]
  from t j d
  have "labels sample (newContent ?u) = labels sample (currentContent blob0) @ [JStr (js ''WALL_E'')]
        \<and> distinct (labels sample (newContent ?u))"
    by blast
  then have "labels sample (newContent ?u) = [JStr (js ''SC30NNW1''), JStr (js ''WALL_E'')]
        \<and> distinct (labels sample (newContent ?u))"
    by (simp add: sample_labels)
  with s show "\<exists>u. snd (contributeDisc sample now0 (Ok (Decoded blob0)) (\<lambda>u. Ok ()) walle_data env0) =
              [GET (js ''ghp_token''), PUT (js ''ghp_token'') u]
          \<and> newContent u = currentContent blob1
          \<and> labels sample (currentContent blob0) = [JStr (js ''SC30NNW1'')]
          \<and> labels sample (newContent u) = [JStr (js ''SC30NNW1''), JStr (js ''WALL_E'')]
          \<and> distinct (labels sample (newContent u))"
    by (simp add: sample_labels)
  from t j a
  show "contributeDisc sample now1 (Ok (Decoded blob1)) (\<lambda>u. Ok ()) walle_again env0 =
     (Inr (jsonResponse (JObj [(js ''success'', JBool True),
                               (js ''message'', JStr (js ''Entry already exists'')),
                               (js ''duplicate'', JBool True)]) 200),
      [GET (js ''ghp_token'')])"
    by blast
qed

text \<open>
  \<^bold>\<open>C2\<close> (conditional write). For a request that passes the validation, with the token
  configured, the blob read and no duplicate found: either building the update throws
  and only the read has been sent, or exactly one update is sent, it carries the
  \<^verbatim>\<open>sha\<close> that came with the blob, and the outcome is the host's answer to that one
  update: success when it accepts, the error response with status 500 and the host's text
  when it refuses, the exception when the request itself fails. Nothing is sent twice.
\<close>

theorem conditional_write_uses_read_sha:
  assumes "first_missing data required = Inr None"
    and "GITHUB_TOKEN env = Some t" and "t \<noteq> []"
    and "fetched = Ok (Decoded fd)"
    and "\<not> list_ex (same_label b (make_entry data now)) (record_lines (currentContent fd))"
    and "contributeDisc b now fetched host_put data env = (res, sent)"
  shows "(\<exists>x. res = Inl x \<and> sent = [GET t])
       \<or> (\<exists>u. sent = [GET t, PUT t u] \<and> sha u = file_sha fd
              \<and> res = (case host_put u of
                         Rejected \<Rightarrow> Inl NetworkError
                       | NotOk err \<Rightarrow>
                           Inr (jsonResponse
                                 (JObj [(js ''error'', JStr (js ''Failed to commit contribution'')),
                                        (js ''details'', JStr err)]) 500)
                       | Ok x \<Rightarrow>
                           Inr (jsonResponse
                                 (JObj [(js ''success'', JBool True),
                                        (js ''message'', JStr (js ''Contribution added'')),
                                        (js ''entry'', make_entry data now)]) 200)))"
proof (cases "commit_message b (make_entry data now)")
  case (Inl x)
  then show ?thesis
    using contributeDisc_no_write [OF assms(1-5), of x host_put] assms(6) by auto
next
  case (Inr msg)
  show ?thesis
  proof (cases "latin1 (trim (currentContent fd) @ [nl] @ JSON_stringify b (make_entry data now) @ [nl])")
    case False
    then show ?thesis
      using contributeDisc_no_write [OF assms(1-5), of undefined host_put] assms(6) by auto
  next
    case True
    define u where "u = \<lparr>message = msg,
              newContent = trim (currentContent fd) @ [nl] @ JSON_stringify b (make_entry data now) @ [nl],
              sha = file_sha fd\<rparr>"
    have "sha u = file_sha fd" by (simp add: u_def)
    then show ?thesis
      using contributeDisc_write [OF assms(1-5) Inr True u_def, of host_put] assms(6) by auto
  qed
qed

theorem conditional_write_uses_read_sha_witness:
  "contributeDisc sample now0 (Ok (Decoded blob0)) (\<lambda>u. NotOk (js ''409 Conflict'')) walle_data env0 =
     (Inr (jsonResponse (JObj [(js ''error'', JStr (js ''Failed to commit contribution'')),
                               (js ''details'', JStr (js ''409 Conflict''))]) 500),
      [GET (js ''ghp_token''),
       PUT (js ''ghp_token'') \<lparr>message = js ''Add disc: WALL_E -> WALL-E'',
                               newContent = currentContent blob1,
                               sha = JStr (js ''3d21ec53a331a6f037a91c368710b99387d012c1'')\<rparr>])"
proof -
  let ?c = "contributeDisc sample now0 (Ok (Decoded blob0)) (\<lambda>u. NotOk (js ''409 Conflict'')) walle_data env0"
  have "?c = (fst ?c, snd ?c)" by simp
  from conditional_write_uses_read_sha [OF sample_valid sample_token refl sample_fresh this]
  have "(\<exists>x. fst ?c = Inl x \<and> snd ?c = [GET (js ''ghp_token'')])
      \<or> (\<exists>u. snd ?c = [GET (js ''ghp_token''), PUT (js ''ghp_token'') u] \<and> sha u = file_sha blob0
            \<and> fst ?c = Inr (jsonResponse
                 (JObj [(js ''error'', JStr (js ''Failed to commit contribution'')),
                        (js ''details'', JStr (js ''409 Conflict''))]) 500))"
    by simp
  moreover have "snd ?c = [GET (js ''ghp_token''),
       PUT (js ''ghp_token'') \<lparr>message = js ''Add disc: WALL_E -> WALL-E'',
                               newContent = currentContent blob1, sha = file_sha blob0\<rparr>]"
    by (simp add: sample_first)
  ultimately have "fst ?c = Inr (jsonResponse
                 (JObj [(js ''error'', JStr (js ''Failed to commit contribution'')),
                        (js ''details'', JStr (js ''409 Conflict''))]) 500)
     \<and> snd ?c = [GET (js ''ghp_token''),
       PUT (js ''ghp_token'') \<lparr>message = js ''Add disc: WALL_E -> WALL-E'',
                               newContent = currentContent blob1, sha = file_sha blob0\<rparr>]"
    by auto
  then show ?thesis
    by (simp add: prod_eq_iff blob0_def)
qed

text \<open>
  \<^bold>\<open>C3\<close> (fuzzy tolerance), as amended. With a snapshot of one record, of type
  \<^verbatim>\<open>dvd\<close> and \<^verbatim>\<open>duration_secs\<close> 5501, and a label that is not the record's, a lookup
  with duration \<open>d\<close> returns the record exactly when \<open>d\<close> is positive and
  \<open>\<bar>5501 - d\<bar> \<le> 0.05 * d\<close>: the tolerance is 5% of the duration asked for, not of the
  record's. So the record is returned at \<open>5501 * 1.05\<close> and also one second beyond it;
  the largest whole number of seconds that returns it is 5790.
\<close>

theorem fuzzy_tolerance_boundary:
  assumes "l \<noteq> []"
    and "parse_all b (record_lines text) = Inr [e]"
    and "get e (js ''disc_label'') \<noteq> JStr l"
    and "get e (js ''disc_type'') = JStr (js ''dvd'')"
    and "get e (js ''duration_secs'') = JNum (Fin 5501)"
  shows "lookupDisc b (JStr l) (Fin d) (Ok text) =
           Inr (if 0 < d \<and> \<bar>5501 - d\<bar> \<le> d * (5 / 100)
                then jsonResponse (JObj [(js ''found'', JBool True), (js ''entry'', e)]) 200
                else jsonResponse (JObj [(js ''found'', JBool False), (js ''label'', JStr l),
                                         (js ''duration'', JNum (Fin d))]) 200)"
proof -
  obtain kvs where e: "e = JObj kvs" using assms(5) by (auto dest: get_JNum_obj)
  have x: "exact_pred (JStr l) e = Inr False"
    using assms(3) e by (intro exact_pred_False) simp_all
  have f: "fuzzy_pred b (Fin d) (num_mul (Fin d) (Fin (5 / 100))) e = Inr (\<bar>5501 - d\<bar> \<le> d * (5 / 100))"
    using assms(4,5) by (simp add: fuzzy_pred_def e property_obj)
  show ?thesis
    using assms(1,2) x f by (simp add: lookupDisc_def e)
qed

theorem fuzzy_tolerance_boundary_witness:
  "lookupDisc sample (JStr (js ''OTHER'')) (Fin (5501 * 105 / 100)) (Ok (santa_line @ [nl])) =
     Inr (jsonResponse (JObj [(js ''found'', JBool True), (js ''entry'', santa)]) 200)
   \<and> lookupDisc sample (JStr (js ''OTHER'')) (Fin 5790) (Ok (santa_line @ [nl])) =
     Inr (jsonResponse (JObj [(js ''found'', JBool True), (js ''entry'', santa)]) 200)
   \<and> lookupDisc sample (JStr (js ''OTHER'')) (Fin 5791) (Ok (santa_line @ [nl])) =
     Inr (jsonResponse (JObj [(js ''found'', JBool False), (js ''label'', JStr (js ''OTHER'')),
                              (js ''duration'', JNum (Fin 5791))]) 200)"
proof -
  have 1: "js ''OTHER'' \<noteq> []" by (simp add: js_eq_Nil)
  have 2: "parse_all sample (record_lines (santa_line @ [nl])) = Inr [santa]"
    by (rule sample_snapshots)
  have 3: "get santa (js ''disc_label'') \<noteq> JStr (js ''OTHER'')"
    and 4: "get santa (js ''disc_type'') = JStr (js ''dvd'')"
    and 5: "get santa (js ''duration_secs'') = JNum (Fin 5501)"
    by (simp_all add: santa_def js_eq_iff)
  note b = fuzzy_tolerance_boundary [OF 1 2 3 4 5]
  show ?thesis
    using b [of "5501 * 105 / 100"] b [of 5790] b [of 5791] by simp
qed

text \<open>
  The claim as it was stated fails: one second beyond \<open>5501 * 1.05\<close> the record is still
  returned. The difference of the durations is 276.05 and the tolerance 288.8525, a
  margin far wider than any rounding of doubles.
\<close>

theorem fuzzy_tolerance_counterexample:
  "lookupDisc sample (JStr (js ''OTHER'')) (Fin (5501 * 105 / 100 + 1)) (Ok (santa_line @ [nl])) =
     Inr (jsonResponse (JObj [(js ''found'', JBool True), (js ''entry'', santa)]) 200)"
  by (simp add: lookupDisc_def sample_snapshots exact_pred_def fuzzy_pred_def property_def
      santa_def js_eq_iff js_eq_Nil)

text \<open>
  \<^bold>\<open>C4\<close> (exact match first). If the snapshot parses, \<open>e\<close> is its first entry whose
  \<^verbatim>\<open>disc_label\<close> is the non-empty label asked for, and no entry before \<open>e\<close> is
  \<^verbatim>\<open>null\<close>, then \<open>lookupDisc\<close> returns \<^verbatim>\<open>found: true\<close> with \<open>e\<close>, whatever the
  duration, the other entries and the number conversions of the fuzzy step are.
\<close>

theorem exact_match_precedence:
  assumes "l \<noteq> []"
    and "parse_all b (record_lines text) = Inr (pre @ e # post)"
    and "\<forall>x\<in>set pre. x \<noteq> JNull \<and> x \<noteq> JUndefined \<and> get x (js ''disc_label'') \<noteq> JStr l"
    and "get e (js ''disc_label'') = JStr l"
  shows "lookupDisc b (JStr l) duration (Ok text) =
           Inr (jsonResponse (JObj [(js ''found'', JBool True), (js ''entry'', e)]) 200)"
proof -
  have "js_find (exact_pred (JStr l)) (pre @ e # post) = Inr e"
    using assms(3,4) by (intro js_find_first exact_pred_False exact_pred_True) auto
  moreover have "truthy e"
    using assms(4) by (auto dest: get_JStr_obj)
  ultimately show ?thesis
    using assms(1,2) by (simp add: lookupDisc_def)
qed

theorem exact_match_precedence_witness:
  "lookupDisc sample (JStr (js ''WALL_E'')) (Fin 5501) (Ok catalog) =
     Inr (jsonResponse (JObj [(js ''found'', JBool True), (js ''entry'', walle)]) 200)"
proof -
  have 1: "js ''WALL_E'' \<noteq> []" by (simp add: js_eq_Nil)
  have 2: "parse_all sample (record_lines catalog) = Inr ([gladiator, santa] @ walle # [])"
    by (simp add: sample_snapshots)
  have 3: "\<forall>x\<in>set [gladiator, santa]. x \<noteq> JNull \<and> x \<noteq> JUndefined
             \<and> get x (js ''disc_label'') \<noteq> JStr (js ''WALL_E'')"
    by (simp add: santa_def gladiator_def js_eq_iff)
  have 4: "get walle (js ''disc_label'') = JStr (js ''WALL_E'')"
    by (simp add: walle_def)
  show ?thesis by (rule exact_match_precedence [OF 1 2 3 4])
qed

text \<open>
  \<^bold>\<open>C5\<close> (fuzzy step). When no entry has the label and the duration is not greater
  than 0 (or is \<^verbatim>\<open>NaN\<close>), \<open>lookupDisc\<close> returns \<^verbatim>\<open>found: false\<close> with the label and
  the duration, without looking at any duration. And an entry that \<open>lookupDisc\<close> returns
  without its \<^verbatim>\<open>disc_label\<close> being the label asked for has \<^verbatim>\<open>disc_type\<close> equal to
  the string \<^verbatim>\<open>dvd\<close>, and the duration asked for was greater than 0.
\<close>

theorem fuzzy_only_dvd_and_positive:
  "(parse_all b (record_lines text) = Inr entries \<and> truthy label
      \<and> (\<forall>x\<in>set entries. exact_pred label x = Inr False) \<and> \<not> num_gt duration (Fin 0)
    \<longrightarrow> lookupDisc b label duration (Ok text) =
          Inr (jsonResponse (JObj [(js ''found'', JBool False), (js ''label'', label),
                                   (js ''duration'', JNum duration)]) 200))
   \<and> (lookupDisc b label duration fetched =
          Inr (jsonResponse (JObj [(js ''found'', JBool True), (js ''entry'', e)]) 200)
        \<and> \<not> strict_eq (get e (js ''disc_label'')) label
    \<longrightarrow> get e (js ''disc_type'') = JStr (js ''dvd'') \<and> num_gt duration (Fin 0))"
proof (intro conjI impI)
  assume a: "parse_all b (record_lines text) = Inr entries \<and> truthy label
      \<and> (\<forall>x\<in>set entries. exact_pred label x = Inr False) \<and> \<not> num_gt duration (Fin 0)"
  then have "js_find (exact_pred label) entries = Inr JUndefined"
    by (intro js_find_none) simp
  with a show "lookupDisc b label duration (Ok text) =
          Inr (jsonResponse (JObj [(js ''found'', JBool False), (js ''label'', label),
                                   (js ''duration'', JNum duration)]) 200)"
    by (simp add: lookupDisc_def)
next
  assume a: "lookupDisc b label duration fetched =
          Inr (jsonResponse (JObj [(js ''found'', JBool True), (js ''entry'', e)]) 200)
        \<and> \<not> strict_eq (get e (js ''disc_label'')) label"
  then obtain blob entries exact where
    f: "fetched = Ok blob" and p: "parse_all b (record_lines blob) = Inr entries"
    and x: "js_find (exact_pred label) entries = Inr exact"
    and m: "(if \<not> truthy exact \<and> num_gt duration (Fin 0)
              then js_find (fuzzy_pred b duration (num_mul duration (Fin (5 / 100)))) entries
              else Inr exact) = Inr e" and t: "truthy e"
    by (auto simp: lookupDisc_def jsonResponse_def js_eq_iff split: if_splits reply.splits sum.splits)
  show "get e (js ''disc_type'') = JStr (js ''dvd'')" "num_gt duration (Fin 0)"
  proof -
    have fz: "\<not> truthy exact \<and> num_gt duration (Fin 0)"
    proof (rule ccontr)
      assume "\<not> ?thesis"
      with m have "exact = e" by (simp split: if_splits)
      with x t have "exact_pred label e = Inr True"
        by (auto dest: js_find_Inr)
      with a show False
        by (auto simp: exact_pred_def property_def split: if_splits)
    qed
    then show "num_gt duration (Fin 0)" by simp
    from fz m have "js_find (fuzzy_pred b duration (num_mul duration (Fin (5 / 100)))) entries = Inr e"
      by simp
    with t have "fuzzy_pred b duration (num_mul duration (Fin (5 / 100))) e = Inr True"
      by (auto dest: js_find_Inr)
    then show "get e (js ''disc_type'') = JStr (js ''dvd'')" by (rule fuzzy_pred_True)
  qed
qed

theorem fuzzy_only_dvd_and_positive_witness:
  "lookupDisc sample (JStr (js ''OTHER'')) (Fin 0) (Ok catalog) =
     Inr (jsonResponse (JObj [(js ''found'', JBool False), (js ''label'', JStr (js ''OTHER'')),
                              (js ''duration'', JNum (Fin 0))]) 200)
   \<and> lookupDisc sample (JStr (js ''OTHER'')) (Fin 5501) (Ok catalog) =
     Inr (jsonResponse (JObj [(js ''found'', JBool True), (js ''entry'', santa)]) 200)
   \<and> get santa (js ''disc_type'') = JStr (js ''dvd'')
   \<and> get gladiator (js ''duration_secs'') = JNum (Fin 5501)
   \<and> get gladiator (js ''disc_type'') = JStr (js ''bluray'')"
proof -
  have a: "parse_all sample (record_lines catalog) = Inr [gladiator, santa, walle]
      \<and> truthy (JStr (js ''OTHER''))
      \<and> (\<forall>x\<in>set [gladiator, santa, walle]. exact_pred (JStr (js ''OTHER'')) x = Inr False)
      \<and> \<not> num_gt (Fin 0) (Fin 0)"
    by (simp add: sample_snapshots exact_pred_def property_def santa_def walle_def gladiator_def
        js_eq_iff js_eq_Nil)
  have b: "\<not> strict_eq (get santa (js ''disc_label'')) (JStr (js ''OTHER''))"
    by (simp add: santa_def js_eq_iff)
  have c: "get gladiator (js ''duration_secs'') = JNum (Fin 5501)
         \<and> get gladiator (js ''disc_type'') = JStr (js ''bluray'')"
    by (simp add: gladiator_def js_eq_iff)
  show ?thesis
    using fuzzy_only_dvd_and_positive [of sample catalog "[gladiator, santa, walle]"
        "JStr (js ''OTHER'')" "Fin 0" "Ok catalog" santa]
      fuzzy_only_dvd_and_positive [of sample catalog "[gladiator, santa, walle]"
        "JStr (js ''OTHER'')" "Fin 5501" "Ok catalog" santa]
      a b c sample_lookup_fuzzy
    by blast
qed

text \<open>
  \<^bold>\<open>C6\<close> (required fields). The validation tests each required field for truthiness,
  not for presence: the request \<open>zero_duration_data\<close>, which has all four fields and a
  \<^verbatim>\<open>duration_secs\<close> of 0, is answered with status 400 and
  \<^verbatim>\<open>Missing required field: duration_secs\<close>, before any request is sent.
\<close>

theorem zero_duration_rejected:
  "contributeDisc b now fetched host_put zero_duration_data env =
     (Inr (jsonResponse
        (JObj [(js ''error'', JStr (js ''Missing required field: duration_secs''))]) 400), [])"
proof -
  have "first_missing zero_duration_data required = Inr (Some (js ''duration_secs''))"
    by (simp add: zero_duration_data_def required_def property_def js_eq_iff js_eq_Nil)
  from contributeDisc_invalid [OF this] show ?thesis
    by (simp add: js_append)
qed

theorem zero_duration_rejected_witness:
  "get zero_duration_data (js ''duration_secs'') = JNum (Fin 0)
   \<and> contributeDisc sample now0 (Ok (Decoded blob0)) (\<lambda>u. Ok ()) zero_duration_data env0 =
     (Inr (jsonResponse
        (JObj [(js ''error'', JStr (js ''Missing required field: duration_secs''))]) 400), [])"
  using zero_duration_rejected [of sample now0 "Ok (Decoded blob0)" "\<lambda>u. Ok ()" env0]
  by (simp add: zero_duration_data_def js_eq_iff)

text \<open>
  \<^bold>\<open>C7\<close> (server-set timestamp). The \<^verbatim>\<open>contributed_at\<close> of the entry built from
  any request is the time \<open>now\<close> read by the worker; so is that of the entry in a
  response that has one, and that of the entry serialised into any update that is sent.
\<close>

theorem contributed_at_is_server_time:
  "get (make_entry data now) (js ''contributed_at'') = JStr now
   \<and> (fst (contributeDisc b now fetched host_put data env) = Inr r
        \<and> get (body r) (js ''entry'') \<noteq> JUndefined \<longrightarrow>
      get (get (body r) (js ''entry'')) (js ''contributed_at'') = JStr now)
   \<and> (PUT t u \<in> set (snd (contributeDisc b now fetched host_put data env)) \<longrightarrow>
      (\<exists>fd entry. fetched = Ok (Decoded fd)
         \<and> newContent u = trim (currentContent fd) @ [nl] @ JSON_stringify b entry @ [nl]
         \<and> get entry (js ''contributed_at'') = JStr now))"
proof (intro conjI impI)
  show at: "get (make_entry data now) (js ''contributed_at'') = JStr now"
    by (simp add: make_entry_def js_eq_iff)
  {
    assume "fst (contributeDisc b now fetched host_put data env) = Inr r
        \<and> get (body r) (js ''entry'') \<noteq> JUndefined"
    then have "get (body r) (js ''entry'') = make_entry data now"
      by (auto dest!: entry_returned simp: jsonResponse_def js_eq_iff)
    with at show "get (get (body r) (js ''entry'')) (js ''contributed_at'') = JStr now"
      by simp
  }
  assume "PUT t u \<in> set (snd (contributeDisc b now fetched host_put data env))"
  with at show "\<exists>fd entry. fetched = Ok (Decoded fd)
         \<and> newContent u = trim (currentContent fd) @ [nl] @ JSON_stringify b entry @ [nl]
         \<and> get entry (js ''contributed_at'') = JStr now"
    by (auto dest!: put_in_log)
qed

theorem contributed_at_is_server_time_witness:
  "get walle_data (js ''contributed_at'') = JStr (js ''1999-12-31T23:59:59.000Z'')
   \<and> get (make_entry walle_data now0) (js ''contributed_at'') = JStr (js ''2026-11-03T09:00:00.000Z'')
   \<and> (\<exists>r. fst (contributeDisc sample now0 (Ok (Decoded blob0)) (\<lambda>u. Ok ()) walle_data env0) = Inr r
          \<and> get (get (body r) (js ''entry'')) (js ''contributed_at'') = JStr (js ''2026-11-03T09:00:00.000Z''))
   \<and> (\<exists>t u entry. PUT t u \<in> set (snd (contributeDisc sample now0 (Ok (Decoded blob0)) (\<lambda>u. Ok ()) walle_data env0))
          \<and> newContent u = trim (currentContent blob0) @ [nl] @ JSON_stringify sample entry @ [nl]
          \<and> get entry (js ''contributed_at'') = JStr (js ''2026-11-03T09:00:00.000Z''))"
proof -
  let ?c = "contributeDisc sample now0 (Ok (Decoded blob0)) (\<lambda>u. Ok ()) walle_data env0"
  let ?r = "jsonResponse (JObj [(js ''success'', JBool True),
                                (js ''message'', JStr (js ''Contribution added'')),
                                (js ''entry'', walle)]) 200"
  let ?u = "\<lparr>message = js ''Add disc: WALL_E -> WALL-E'',
             newContent = currentContent blob1, sha = file_sha blob0\<rparr>"
  have r: "fst ?c = Inr ?r \<and> get (body ?r) (js ''entry'') \<noteq> JUndefined"
    by (simp add: sample_first jsonResponse_def js_eq_iff walle_def)
  have u: "PUT (js ''ghp_token'') ?u \<in> set (snd ?c)"
    by (simp add: sample_first)
  note t = contributed_at_is_server_time [of walle_data now0 sample "Ok (Decoded blob0)" "\<lambda>u. Ok ()" env0 ?r
      "js ''ghp_token''" ?u]
  have 1: "get walle_data (js ''contributed_at'') = JStr (js ''1999-12-31T23:59:59.000Z'')"
    by (simp add: walle_data_def js_eq_iff)
  have 2: "get (make_entry walle_data now0) (js ''contributed_at'') = JStr now0"
    using t by blast
  have 3: "get (get (body ?r) (js ''entry'')) (js ''contributed_at'') = JStr now0"
    using t r by blast
  have 4: "\<exists>fd entry. Ok (Decoded blob0) = Ok (Decoded fd)
         \<and> newContent ?u = trim (currentContent fd) @ [nl] @ JSON_stringify sample entry @ [nl]
         \<and> get entry (js ''contributed_at'') = JStr now0"
    using t u by blast
  then have 5: "\<exists>entry. newContent ?u = trim (currentContent blob0) @ [nl] @ JSON_stringify sample entry @ [nl]
         \<and> get entry (js ''contributed_at'') = JStr now0"
    by simp
  show ?thesis
    using 1 2 3 5 r u unfolding now0_def by blast
qed

text \<open>
  \<^bold>\<open>C8\<close> (lines that do not parse). Take a request that passes the validation, with the
  token configured and the blob read and decoded. If some line of the blob parses to a
  value whose \<^verbatim>\<open>disc_label\<close> is the request's, \<open>contributeDisc\<close> answers with the
  duplicate response. If no line that parses does, then whatever the other lines are,
  \<open>contributeDisc\<close> goes on to the update: with the commit message built and the content
  within \<^verbatim>\<open>btoa\<close>'s range it sends the update and answers as the host does. It throws a
  SyntaxError only when the answer to the read is itself not JSON. On the read path one
  line that does not parse makes \<open>lookupDisc\<close> (asked with a label) and \<open>getDatabase\<close>
  throw a SyntaxError.
\<close>

theorem parse_errors_skipped_on_write_fatal_on_read:
  "(first_missing data required = Inr None \<and> GITHUB_TOKEN env = Some t \<and> t \<noteq> []
      \<and> fetched = Ok (Decoded fd)
      \<and> (\<exists>line\<in>set (record_lines (currentContent fd)). \<exists>v.
            JSON_parse b line = Some v \<and> v \<noteq> JNull \<and> v \<noteq> JUndefined
            \<and> strict_eq (get v (js ''disc_label'')) (get data (js ''disc_label''))) \<longrightarrow>
    contributeDisc b now fetched host_put data env =
      (Inr (jsonResponse (JObj [(js ''success'', JBool True),
                                (js ''message'', JStr (js ''Entry already exists'')),
                                (js ''duplicate'', JBool True)]) 200),
       [GET t]))
   \<and> (first_missing data required = Inr None \<and> GITHUB_TOKEN env = Some t \<and> t \<noteq> []
      \<and> fetched = Ok (Decoded fd)
      \<and> (\<forall>line\<in>set (record_lines (currentContent fd)). \<forall>v.
            JSON_parse b line = Some v \<and> v \<noteq> JNull \<and> v \<noteq> JUndefined \<longrightarrow>
            \<not> strict_eq (get v (js ''disc_label'')) (get data (js ''disc_label'')))
      \<and> commit_message b (make_entry data now) = Inr msg
      \<and> latin1 (trim (currentContent fd) @ [nl] @ JSON_stringify b (make_entry data now) @ [nl]) \<longrightarrow>
    contributeDisc b now fetched host_put data env =
      (case host_put \<lparr>message = msg,
              newContent = trim (currentContent fd) @ [nl]
                             @ JSON_stringify b (make_entry data now) @ [nl],
              sha = file_sha fd\<rparr> of
         Rejected \<Rightarrow> Inl NetworkError
       | NotOk err \<Rightarrow>
           Inr (jsonResponse (JObj [(js ''error'', JStr (js ''Failed to commit contribution'')),
                                    (js ''details'', JStr err)]) 500)
       | Ok x \<Rightarrow>
           Inr (jsonResponse (JObj [(js ''success'', JBool True),
                                    (js ''message'', JStr (js ''Contribution added'')),
                                    (js ''entry'', make_entry data now)]) 200),
       [GET t,
        PUT t \<lparr>message = msg,
              newContent = trim (currentContent fd) @ [nl]
                             @ JSON_stringify b (make_entry data now) @ [nl],
              sha = file_sha fd\<rparr>]))
   \<and> (fetched \<noteq> Ok NotJSON \<longrightarrow>
        fst (contributeDisc b now fetched host_put data env) \<noteq> Inl SyntaxError)
   \<and> (truthy label \<and> bad \<in> set (record_lines raw) \<and> JSON_parse b bad = None \<longrightarrow>
        lookupDisc b label duration (Ok raw) = Inl SyntaxError
        \<and> getDatabase b (Ok raw) = Inl SyntaxError)"
proof (intro conjI impI)
  let ?dup = "list_ex (same_label b (make_entry data now)) (record_lines (currentContent fd))"
  {
    assume a: "first_missing data required = Inr None \<and> GITHUB_TOKEN env = Some t \<and> t \<noteq> []
      \<and> fetched = Ok (Decoded fd)
      \<and> (\<exists>line\<in>set (record_lines (currentContent fd)). \<exists>v.
            JSON_parse b line = Some v \<and> v \<noteq> JNull \<and> v \<noteq> JUndefined
            \<and> strict_eq (get v (js ''disc_label'')) (get data (js ''disc_label'')))"
    then have "?dup" by (simp only: scan_iff)
    with a show "contributeDisc b now fetched host_put data env =
      (Inr (jsonResponse (JObj [(js ''success'', JBool True),
                                (js ''message'', JStr (js ''Entry already exists'')),
                                (js ''duplicate'', JBool True)]) 200),
       [GET t])"
      by (intro contributeDisc_duplicate) simp_all
  }
  {
    assume a: "first_missing data required = Inr None \<and> GITHUB_TOKEN env = Some t \<and> t \<noteq> []
      \<and> fetched = Ok (Decoded fd)
      \<and> (\<forall>line\<in>set (record_lines (currentContent fd)). \<forall>v.
            JSON_parse b line = Some v \<and> v \<noteq> JNull \<and> v \<noteq> JUndefined \<longrightarrow>
            \<not> strict_eq (get v (js ''disc_label'')) (get data (js ''disc_label'')))
      \<and> commit_message b (make_entry data now) = Inr msg
      \<and> latin1 (trim (currentContent fd) @ [nl] @ JSON_stringify b (make_entry data now) @ [nl])"
    then have "\<not> ?dup" unfolding scan_iff by blast
    with a show "contributeDisc b now fetched host_put data env =
      (case host_put \<lparr>message = msg,
              newContent = trim (currentContent fd) @ [nl]
                             @ JSON_stringify b (make_entry data now) @ [nl],
              sha = file_sha fd\<rparr> of
         Rejected \<Rightarrow> Inl NetworkError
       | NotOk err \<Rightarrow>
           Inr (jsonResponse (JObj [(js ''error'', JStr (js ''Failed to commit contribution'')),
                                    (js ''details'', JStr err)]) 500)
       | Ok x \<Rightarrow>
           Inr (jsonResponse (JObj [(js ''success'', JBool True),
                                    (js ''message'', JStr (js ''Contribution added'')),
                                    (js ''entry'', make_entry data now)]) 200),
       [GET t,
        PUT t \<lparr>message = msg,
              newContent = trim (currentContent fd) @ [nl]
                             @ JSON_stringify b (make_entry data now) @ [nl],
              sha = file_sha fd\<rparr>])"
      by (intro contributeDisc_write) simp_all
  }
  show "fst (contributeDisc b now fetched host_put data env) \<noteq> Inl SyntaxError"
    if "fetched \<noteq> Ok NotJSON"
    using that by (rule no_syntax_error)
  assume a: "truthy label \<and> bad \<in> set (record_lines raw) \<and> JSON_parse b bad = None"
  then have p: "parse_all b (record_lines raw) = Inl SyntaxError"
    by (intro parse_all_fails [of bad]) simp_all
  with a show "lookupDisc b label duration (Ok raw) = Inl SyntaxError"
    by (simp add: lookupDisc_def)
  from p show "getDatabase b (Ok raw) = Inl SyntaxError"
    by (simp add: getDatabase_def)
qed

text \<open>
  The sample request against a blob whose only line is not JSON is added after that line;
  against \<open>blob1\<close>, which holds the same line and the label, it is a duplicate; reading
  \<open>blob1\<close> throws.
\<close>

theorem parse_errors_skipped_on_write_fatal_on_read_witness:
  "JSON_parse sample (js ''not json'') = None
   \<and> record_lines (currentContent blob_bad) = [js ''not json'']
   \<and> contributeDisc sample now0 (Ok (Decoded blob_bad)) (\<lambda>u. Ok ()) walle_data env0 =
       (Inr (jsonResponse (JObj [(js ''success'', JBool True),
                                 (js ''message'', JStr (js ''Contribution added'')),
                                 (js ''entry'', walle)]) 200),
        [GET (js ''ghp_token''),
         PUT (js ''ghp_token'')
           \<lparr>message = js ''Add disc: WALL_E -> WALL-E'',
              newContent = js ''not json'' @ [nl] @ walle_line @ [nl],
              sha = file_sha blob_bad\<rparr>])
   \<and> js ''not json'' \<in> set (record_lines (currentContent blob1))
   \<and> contributeDisc sample now0 (Ok (Decoded blob1)) (\<lambda>u. Ok ()) walle_data env0 =
       (Inr (jsonResponse (JObj [(js ''success'', JBool True),
                                 (js ''message'', JStr (js ''Entry already exists'')),
                                 (js ''duplicate'', JBool True)]) 200),
        [GET (js ''ghp_token'')])
   \<and> lookupDisc sample (JStr (js ''WALL_E'')) (Fin 0) (Ok (currentContent blob1)) = Inl SyntaxError
   \<and> getDatabase sample (Ok (currentContent blob1)) = Inl SyntaxError"
proof -
  have a: "JSON_parse sample (js ''not json'') = None"
    by (rule sample_parse)
  have l: "record_lines (currentContent blob_bad) = [js ''not json'']"
    by (simp add: blob_bad_def record_lines_one one_line_samples)
  have tr: "trim (currentContent blob_bad) = js ''not json''"
    by (simp add: blob_bad_def trim_line one_line_samples)
  have g: "get walle_data (js ''disc_label'') = JStr (js ''WALL_E'')"
    by (rule sample_label)
  have p1: "first_missing walle_data required = Inr None
      \<and> GITHUB_TOKEN env0 = Some (js ''ghp_token'') \<and> js ''ghp_token'' \<noteq> []
      \<and> Ok (Decoded blob_bad) = Ok (Decoded blob_bad)
      \<and> (\<forall>line\<in>set (record_lines (currentContent blob_bad)). \<forall>v.
            JSON_parse sample line = Some v \<and> v \<noteq> JNull \<and> v \<noteq> JUndefined \<longrightarrow>
            \<not> strict_eq (get v (js ''disc_label'')) (get walle_data (js ''disc_label'')))
      \<and> commit_message sample (make_entry walle_data now0) = Inr (js ''Add disc: WALL_E -> WALL-E'')
      \<and> latin1 (trim (currentContent blob_bad) @ [nl]
                  @ JSON_stringify sample (make_entry walle_data now0) @ [nl])"
    using latin1_samples
    by (simp add: sample_valid sample_token l a tr sample_entry sample_message sample_stringify
        latin1_def)
  have p2: "first_missing walle_data required = Inr None
      \<and> GITHUB_TOKEN env0 = Some (js ''ghp_token'') \<and> js ''ghp_token'' \<noteq> []
      \<and> Ok (Decoded blob1) = Ok (Decoded blob1)
      \<and> (\<exists>line\<in>set (record_lines (currentContent blob1)). \<exists>v.
            JSON_parse sample line = Some v \<and> v \<noteq> JNull \<and> v \<noteq> JUndefined
            \<and> strict_eq (get v (js ''disc_label'')) (get walle_data (js ''disc_label'')))"
    by (simp add: sample_valid sample_token sample_lines sample_parse g walle_def)
  have p3: "truthy (JStr (js ''WALL_E'')) \<and> js ''not json'' \<in> set (record_lines (currentContent blob1))
      \<and> JSON_parse sample (js ''not json'') = None"
    by (simp add: sample_lines js_eq_Nil a)
  note t1 = parse_errors_skipped_on_write_fatal_on_read [where b = sample and data = walle_data
      and env = env0 and t = "js ''ghp_token''" and fetched = "Ok (Decoded blob_bad)"
      and fd = blob_bad and now = now0 and host_put = "\<lambda>u. Ok ()"
      and msg = "js ''Add disc: WALL_E -> WALL-E''"]
  note t2 = parse_errors_skipped_on_write_fatal_on_read [where b = sample and data = walle_data
      and env = env0 and t = "js ''ghp_token''" and fetched = "Ok (Decoded blob1)"
      and fd = blob1 and now = now0 and host_put = "\<lambda>u. Ok ()"
      and label = "JStr (js ''WALL_E'')" and bad = "js ''not json''"
      and raw = "currentContent blob1" and duration = "Fin 0"]
  have 1: "contributeDisc sample now0 (Ok (Decoded blob_bad)) (\<lambda>u. Ok ()) walle_data env0 =
       (Inr (jsonResponse (JObj [(js ''success'', JBool True),
                                 (js ''message'', JStr (js ''Contribution added'')),
                                 (js ''entry'', walle)]) 200),
        [GET (js ''ghp_token''),
         PUT (js ''ghp_token'')
           \<lparr>message = js ''Add disc: WALL_E -> WALL-E'',
              newContent = js ''not json'' @ [nl] @ walle_line @ [nl],
              sha = file_sha blob_bad\<rparr>])"
    using t1 p1 by (simp add: tr sample_entry sample_stringify)
  have 2: "contributeDisc sample now0 (Ok (Decoded blob1)) (\<lambda>u. Ok ()) walle_data env0 =
       (Inr (jsonResponse (JObj [(js ''success'', JBool True),
                                 (js ''message'', JStr (js ''Entry already exists'')),
                                 (js ''duplicate'', JBool True)]) 200),
        [GET (js ''ghp_token'')])"
    using t2 p2 by blast
  have 3: "lookupDisc sample (JStr (js ''WALL_E'')) (Fin 0) (Ok (currentContent blob1)) = Inl SyntaxError
      \<and> getDatabase sample (Ok (currentContent blob1)) = Inl SyntaxError"
    using t2 p3 by blast
  show ?thesis
    using a l 1 2 3 p3 by simp
qed

text \<open>
  \<^bold>\<open>C9\<close> (layout of the new blob). When \<open>contributeDisc\<close> answers
  \<^verbatim>\<open>Contribution added\<close> with the entry \<open>e\<close>, it has sent the read and one update, whose
  content is the trimmed content read, a newline, the serialisation of \<open>e\<close> and a newline.
  The serialisation being one line, the lines of the new content are the lines of the
  content read, unchanged and in order, followed by that line, and the content ends with
  a newline.
\<close>

theorem appended_blob_layout:
  assumes "contributeDisc b now fetched host_put data env =
             (Inr (jsonResponse (JObj [(js ''success'', JBool True),
                                       (js ''message'', JStr (js ''Contribution added'')),
                                       (js ''entry'', e)]) 200), sent)"
    and "one_line (JSON_stringify b e)"
  shows "\<exists>t u fd. sent = [GET t, PUT t u] \<and> fetched = Ok (Decoded fd)
           \<and> newContent u = trim (currentContent fd) @ [nl] @ JSON_stringify b e @ [nl]
           \<and> record_lines (newContent u) = record_lines (currentContent fd) @ [JSON_stringify b e]
           \<and> last (newContent u) = nl"
proof -
  let ?r = "jsonResponse (JObj [(js ''success'', JBool True),
                                (js ''message'', JStr (js ''Contribution added'')),
                                (js ''entry'', e)]) 200"
  have r: "fst (contributeDisc b now fetched host_put data env) = Inr ?r"
    and s: "snd (contributeDisc b now fetched host_put data env) = sent"
    using assms(1) by simp_all
  have "get (body ?r) (js ''entry'') = e"
    by (simp add: jsonResponse_def js_eq_iff)
  moreover have "e \<noteq> JUndefined"
    using assms(2) r
    by (auto simp: contributeDisc_def Let_def jsonResponse_def js_eq_iff make_entry_def
        split: sum.splits option.splits if_splits reply.splits contents.splits)
  ultimately have "get (body ?r) (js ''entry'') \<noteq> JUndefined" by simp
  from entry_returned [OF r this] obtain t u where
    e: "e = make_entry data now" and l: "sent = [GET t, PUT t u]"
    by (auto simp: s jsonResponse_def)
  then have "PUT t u \<in> set (snd (contributeDisc b now fetched host_put data env))"
    by (simp add: s)
  then obtain fd where f: "fetched = Ok (Decoded fd)"
    and u: "newContent u = trim (currentContent fd) @ [nl] @ JSON_stringify b e @ [nl]"
    by (auto dest!: put_in_log simp: e)
  have "record_lines (newContent u) = record_lines (currentContent fd) @ [JSON_stringify b e]"
    unfolding u using assms(2) by (rule record_lines_append)
  moreover have "last (newContent u) = nl" by (simp add: u)
  ultimately show ?thesis using l f u by blast
qed

theorem appended_blob_layout_witness:
  "\<exists>u. snd (contributeDisc sample now0 (Ok (Decoded blob0)) (\<lambda>u. Ok ()) walle_data env0) =
          [GET (js ''ghp_token''), PUT (js ''ghp_token'') u]
      \<and> record_lines (currentContent blob0) = [santa_line, js ''not json'']
      \<and> newContent u = santa_line @ [nl] @ js ''not json'' @ [nl] @ walle_line @ [nl]
      \<and> record_lines (newContent u) = [santa_line, js ''not json'', walle_line]
      \<and> last (newContent u) = nl"
proof -
  let ?c = "contributeDisc sample now0 (Ok (Decoded blob0)) (\<lambda>u. Ok ()) walle_data env0"
  have c: "?c = (Inr (jsonResponse (JObj [(js ''success'', JBool True),
                                       (js ''message'', JStr (js ''Contribution added'')),
                                       (js ''entry'', walle)]) 200), snd ?c)"
    by (simp add: sample_first)
  have o: "one_line (JSON_stringify sample walle)"
    by (simp add: sample_stringify one_line_samples)
  from appended_blob_layout [OF c o] obtain t u fd where
    s: "snd ?c = [GET t, PUT t u]" and f: "Ok (Decoded blob0) = Ok (Decoded fd)"
    and n: "newContent u = trim (currentContent fd) @ [nl] @ JSON_stringify sample walle @ [nl]"
    and r: "record_lines (newContent u) = record_lines (currentContent fd) @ [JSON_stringify sample walle]"
    and l: "last (newContent u) = nl"
    by blast
  from s have t: "t = js ''ghp_token''" by (simp add: sample_first)
  from f have fd: "fd = blob0" by simp
  have "newContent u = santa_line @ [nl] @ js ''not json'' @ [nl] @ walle_line @ [nl]"
    using n by (simp add: fd sample_blob0_trim sample_stringify)
  moreover have "record_lines (newContent u) = [santa_line, js ''not json'', walle_line]"
    using r by (simp add: fd sample_lines sample_stringify)
  ultimately show ?thesis
    using s l t sample_lines(2) by blast
qed

text \<open>
  \<^bold>\<open>C10\<close> (shape of the entry). The entry built from any request has the eight fields of the
  data model, in order, and no other property; its \<^verbatim>\<open>track_count\<close> is the request's when
  that is truthy and 0 otherwise; its \<^verbatim>\<open>year\<close> and \<^verbatim>\<open>tmdb_id\<close> are \<^verbatim>\<open>null\<close> when
  the request has none. That entry is the one in a response that has an entry and the
  one serialised into any update that is sent.
\<close>

theorem entry_has_exactly_schema_fields:
  "(\<exists>vs. length vs = 8 \<and> make_entry data now = JObj (zip schema_fields vs))
   \<and> (k \<notin> set schema_fields \<longrightarrow> get (make_entry data now) k = JUndefined)
   \<and> get (make_entry data now) (js ''track_count'') =
       (if truthy (get data (js ''track_count'')) then get data (js ''track_count'') else JNum (Fin 0))
   \<and> (get data (js ''year'') = JUndefined \<longrightarrow> get (make_entry data now) (js ''year'') = JNull)
   \<and> (get data (js ''tmdb_id'') = JUndefined \<longrightarrow> get (make_entry data now) (js ''tmdb_id'') = JNull)
   \<and> (fst (contributeDisc b now fetched host_put data env) = Inr r
        \<and> get (body r) (js ''entry'') \<noteq> JUndefined \<longrightarrow>
      get (body r) (js ''entry'') = make_entry data now)
   \<and> (PUT t u \<in> set (snd (contributeDisc b now fetched host_put data env)) \<longrightarrow>
      (\<exists>fd. fetched = Ok (Decoded fd)
         \<and> newContent u =
             trim (currentContent fd) @ [nl] @ JSON_stringify b (make_entry data now) @ [nl]))"
proof (intro conjI impI)
  let ?vs = "[get data (js ''disc_label''), get data (js ''disc_type''),
              get data (js ''duration_secs''),
              js_or (get data (js ''track_count'')) (JNum (Fin 0)),
              get data (js ''title''), js_or (get data (js ''year'')) JNull,
              js_or (get data (js ''tmdb_id'')) JNull, JStr now]"
  have "length ?vs = 8 \<and> make_entry data now = JObj (zip schema_fields ?vs)"
    by (simp add: make_entry_def schema_fields_def)
  then show "\<exists>vs. length vs = 8 \<and> make_entry data now = JObj (zip schema_fields vs)"
    by (rule exI)
  show "get (make_entry data now) k = JUndefined" if "k \<notin> set schema_fields"
    using that by (simp add: make_entry_def schema_fields_def)
  show "get (make_entry data now) (js ''track_count'') =
       (if truthy (get data (js ''track_count'')) then get data (js ''track_count'') else JNum (Fin 0))"
    by (simp add: make_entry_def js_or_def js_eq_iff)
  show "get (make_entry data now) (js ''year'') = JNull" if "get data (js ''year'') = JUndefined"
    using that by (simp add: make_entry_def js_or_def js_eq_iff)
  show "get (make_entry data now) (js ''tmdb_id'') = JNull" if "get data (js ''tmdb_id'') = JUndefined"
    using that by (simp add: make_entry_def js_or_def js_eq_iff)
  show "get (body r) (js ''entry'') = make_entry data now"
    if "fst (contributeDisc b now fetched host_put data env) = Inr r
        \<and> get (body r) (js ''entry'') \<noteq> JUndefined"
    using that by (auto dest!: entry_returned simp: jsonResponse_def js_eq_iff)
  show "\<exists>fd. fetched = Ok (Decoded fd)
         \<and> newContent u =
             trim (currentContent fd) @ [nl] @ JSON_stringify b (make_entry data now) @ [nl]"
    if "PUT t u \<in> set (snd (contributeDisc b now fetched host_put data env))"
    using that by (auto dest!: put_in_log)
qed

theorem entry_has_exactly_schema_fields_witness:
  "get walle_data (js ''ripper'') = JStr (js ''someone'')
   \<and> get (make_entry walle_data now0) (js ''ripper'') = JUndefined
   \<and> get walle_data (js ''track_count'') = JUndefined
   \<and> get (make_entry walle_data now0) (js ''track_count'') = JNum (Fin 0)
   \<and> get (make_entry walle_data now0) (js ''year'') = JNull
   \<and> get (make_entry walle_data now0) (js ''tmdb_id'') = JNull
   \<and> (\<exists>vs. length vs = 8 \<and> make_entry walle_data now0 = JObj (zip schema_fields vs))"
proof -
  have a: "js ''ripper'' \<notin> set schema_fields"
    by (simp add: schema_fields_def js_eq_iff)
  have b: "get walle_data (js ''ripper'') = JStr (js ''someone'')"
    "get walle_data (js ''track_count'') = JUndefined"
    "get walle_data (js ''year'') = JUndefined"
    "get walle_data (js ''tmdb_id'') = JUndefined"
    by (simp_all add: walle_data_def js_eq_iff)
  show ?thesis
    using entry_has_exactly_schema_fields [of walle_data now0 "js ''ripper''" sample "Ok (Decoded blob0)"
        "\<lambda>u. Ok ()" env0 "jsonResponse JNull 200" "[]"
        "\<lparr>message = [], newContent = [], sha = JNull\<rparr>"] a b
    by simp
qed

end
